theory Spec2Isabelle
  imports Main "HOL-Library.Word"
begin

unbundle bit_operations_syntax

section \<open>Data model\<close>

type_synonym u8 = "8 word"
type_synonym u32 = "32 word"
type_synonym i64 = "64 word"

text \<open>
  \<^verbatim>\<open>subttxrend::common::DataBuffer\<close> is a vector of bytes.
\<close>

type_synonym DataBuffer = "u8 list"

text \<open>
  \<^verbatim>\<open>RenderSession::SessionType\<close> and \<^verbatim>\<open>RenderSession::DataType\<close> of the header.
  The two enums share member names, so the members of \<open>DataType\<close> carry the prefix
  \<open>DT_\<close>. \<open>DT_other\<close> stands for an integer outside the enum cast to it, which the
  \<^verbatim>\<open>default:\<close> branch of \<open>sendData\<close> handles.
\<close>

datatype SessionType = NONE | CC | TTX | DVB | WEBVTT | TTML | SCTE

datatype DataType = DT_PES | DT_TTML | DT_CC | DT_WEBVTT | DT_other

text \<open>
  \<^verbatim>\<open>subttxrend::protocol::Packet::Type\<close>: the members the session names. \<open>INVALID\<close>
  also stands for every type the dispatcher has no case for.
\<close>

datatype PacketType =
    INVALID
  | PES_DATA | TTML_DATA | WEBVTT_DATA | CC_DATA
  | SUBTITLE_SELECTION | TELETEXT_SELECTION | TTML_SELECTION | WEBVTT_SELECTION
  | RESET_ALL | RESET_CHANNEL
  | TIMESTAMP | TTML_TIMESTAMP | WEBVTT_TIMESTAMP
  | PAUSE | RESUME | MUTE | UNMUTE
  | TTML_INFO | SET_CC_ATTRIBUTES

text \<open>
  \<^verbatim>\<open>PacketSubtitleSelection::getSubtitlesType()\<close>: the four constants the selection
  switch names, and any other value.
\<close>

datatype SubtitlesType =
    SUBTITLES_TYPE_DVB | SUBTITLES_TYPE_SCTE | SUBTITLES_TYPE_CC | SUBTITLES_TYPE_TELETEXT
  | SUBTITLES_TYPE_other

text \<open>
  A parsed packet, as far as the session looks into it: its type, the subtitle type of a
  subtitle selection, and the bytes it was parsed from.
\<close>

record Packet =
  getType :: PacketType
  getSubtitlesType :: SubtitlesType
  getBuffer :: DataBuffer

text \<open>
  The decoder controllers are external and opaque. The model records every call the
  session makes on a controller, in order, with the instance it is made on: an instance is
  numbered when \<^verbatim>\<open>new\<close> constructs it, and \<open>Destroy\<close> is the destructor that
  \<^verbatim>\<open>std::unique_ptr::reset\<close> runs on the instance it gives up.
\<close>

datatype call =
    Construct SessionType Packet
  | Deactivate
  | Destroy
  | AddData Packet
  | MuteCall bool
  | PauseCall
  | ResumeCall
  | WantsData Packet
  | Process
  | GetWaitTime
  | ProcessTimestamp Packet
  | ProcessInfo Packet
  | ProcessSetCCAttributesPacket Packet
  | SetTextForPreview string

datatype event =
    DecoderCall nat call
  | StcProcessTimestamp Packet
  | GfxExecute

text \<open>
  What the opaque controllers answer: \<open>wantsData\<close> and \<open>getWaitTime\<close> (in
  milliseconds) may depend on everything that has been called so far. \<open>parse\<close> is
  \<^verbatim>\<open>PacketParser::parse\<close>.
\<close>

record Controllers =
  wantsData :: "event list \<Rightarrow> Packet \<Rightarrow> bool"
  getWaitTime :: "event list \<Rightarrow> nat"
  parse :: "DataBuffer \<Rightarrow> Packet"

text \<open>
  The fields of \<^verbatim>\<open>RenderSession\<close> the dispatch and the render loop read or write.
  \<open>mDecoder\<close> is the \<^verbatim>\<open>unique_ptr\<close>: \<open>None\<close> is the null pointer. \<open>calls\<close> is the
  call log and \<open>nextInstance\<close> numbers the next controller constructed.
\<close>

record RenderSession =
  mSessionType :: SessionType
  mDisplayName :: string
  mSocketName :: string
  mStarted :: bool
  mLastActiveTime :: nat
  mPreviewText :: string
  mHasCustomTtmlStyling :: bool
  mDecoder :: "nat option"
  mQuitRenderThread :: bool
  mDataQueue :: "DataBuffer list"
  calls :: "event list"
  nextInstance :: nat

text \<open>The constructor; \<open>now\<close> is the reading of the steady clock.\<close>

definition RenderSession_ctor :: "string \<Rightarrow> string \<Rightarrow> nat \<Rightarrow> RenderSession" where
  "RenderSession_ctor displayName socketName now =
     \<lparr> mSessionType = NONE, mDisplayName = displayName, mSocketName = socketName,
       mStarted = False, mLastActiveTime = now, mPreviewText = [],
       mHasCustomTtmlStyling = False, mDecoder = None, mQuitRenderThread = False,
       mDataQueue = [], calls = [], nextInstance = 0 \<rparr>"

definition isRenderingActive :: "RenderSession \<Rightarrow> bool" where
  "isRenderingActive s = (mDecoder s \<noteq> None)"

definition isDataQueued :: "RenderSession \<Rightarrow> bool" where
  "isDataQueued s = (mDataQueue s \<noteq> [])"

definition touchTime :: "nat \<Rightarrow> RenderSession \<Rightarrow> RenderSession" where
  "touchTime now s = s\<lparr>mLastActiveTime := now\<rparr>"

definition getSessionType :: "RenderSession \<Rightarrow> SessionType" where
  "getSessionType s = mSessionType s"

definition getDisplayName :: "RenderSession \<Rightarrow> string" where
  "getDisplayName s = mDisplayName s"

section \<open>Calls on the active controller\<close>

text \<open>\<^verbatim>\<open>if (mDecoder) mDecoder->m(...)\<close>: the call is logged when there is a decoder.\<close>

definition log_event :: "event \<Rightarrow> RenderSession \<Rightarrow> RenderSession" where
  "log_event e s = s\<lparr>calls := calls s @ [e]\<rparr>"

definition decoder_call :: "call \<Rightarrow> RenderSession \<Rightarrow> RenderSession" where
  "decoder_call c s =
     (case mDecoder s of None \<Rightarrow> s | Some i \<Rightarrow> log_event (DecoderCall i c) s)"

text \<open>
  \<^verbatim>\<open>mDecoder.reset()\<close>: the slot becomes null and the instance it held is destroyed.
\<close>

definition decoder_reset :: "RenderSession \<Rightarrow> RenderSession" where
  "decoder_reset s =
     (case mDecoder s of
        None \<Rightarrow> s
      | Some i \<Rightarrow> (log_event (DecoderCall i Destroy) s)\<lparr>mDecoder := None\<rparr>)"

text \<open>
  \<^verbatim>\<open>mDecoder.reset(new Controller(packet, ...))\<close>: the argument is evaluated first, so
  the new instance is constructed while the slot still holds the old one; \<open>reset\<close> then
  stores the new pointer and deletes the instance the slot held. The constructors are
  external; the model takes them to return.
\<close>

definition decoder_reset_new :: "SessionType \<Rightarrow> Packet \<Rightarrow> RenderSession \<Rightarrow> RenderSession" where
  "decoder_reset_new kind packet s =
     (let n = nextInstance s;
          s1 = (log_event (DecoderCall n (Construct kind packet)) s)\<lparr>nextInstance := Suc n\<rparr>;
          s2 = (case mDecoder s1 of
                  None \<Rightarrow> s1
                | Some old \<Rightarrow> log_event (DecoderCall old Destroy) s1)
      in s2\<lparr>mDecoder := Some n\<rparr>)"

section \<open>Packet dispatch\<close>

definition processDecoderSelection :: "Packet \<Rightarrow> RenderSession \<Rightarrow> RenderSession" where
  "processDecoderSelection packet s =
     (let s1 = decoder_call Deactivate s in
      case getType packet of
        SUBTITLE_SELECTION \<Rightarrow>
          (case getSubtitlesType packet of
             SUBTITLES_TYPE_DVB \<Rightarrow> (decoder_reset_new DVB packet s1)\<lparr>mSessionType := DVB\<rparr>
           | SUBTITLES_TYPE_SCTE \<Rightarrow> (decoder_reset_new SCTE packet s1)\<lparr>mSessionType := SCTE\<rparr>
           | SUBTITLES_TYPE_CC \<Rightarrow> (decoder_reset_new CC packet s1)\<lparr>mSessionType := CC\<rparr>
           | SUBTITLES_TYPE_TELETEXT \<Rightarrow> (decoder_reset_new TTX packet s1)\<lparr>mSessionType := TTX\<rparr>
           | SUBTITLES_TYPE_other \<Rightarrow> decoder_reset s1)
      | TELETEXT_SELECTION \<Rightarrow> (decoder_reset_new TTX packet s1)\<lparr>mSessionType := TTX\<rparr>
      | TTML_SELECTION \<Rightarrow> (decoder_reset_new TTML packet s1)\<lparr>mSessionType := TTML\<rparr>
      | WEBVTT_SELECTION \<Rightarrow> (decoder_reset_new WEBVTT packet s1)\<lparr>mSessionType := WEBVTT\<rparr>
      | _ \<Rightarrow> decoder_reset s1)"

definition processDataPacket :: "Packet \<Rightarrow> RenderSession \<Rightarrow> RenderSession" where
  "processDataPacket packet s = decoder_call (AddData packet) s"

definition processMutePacket :: "Packet \<Rightarrow> RenderSession \<Rightarrow> RenderSession" where
  "processMutePacket packet s = decoder_call (MuteCall True) s"

definition processUnmutePacket :: "Packet \<Rightarrow> RenderSession \<Rightarrow> RenderSession" where
  "processUnmutePacket packet s = decoder_call (MuteCall False) s"

definition processSetCCAttributes :: "Packet \<Rightarrow> RenderSession \<Rightarrow> RenderSession" where
  "processSetCCAttributes packet s =
     (if mDecoder s \<noteq> None \<and> mSessionType s = CC
      then decoder_call (ProcessSetCCAttributesPacket packet) s else s)"

definition processResetAll :: "Packet \<Rightarrow> RenderSession \<Rightarrow> RenderSession" where
  "processResetAll packet s =
     (if mDecoder s \<noteq> None
      then decoder_reset (decoder_call Deactivate (s\<lparr>mDataQueue := []\<rparr>))
      else s)"

definition processResetChannel :: "Controllers \<Rightarrow> Packet \<Rightarrow> RenderSession \<Rightarrow> RenderSession" where
  "processResetChannel ctl packet s =
     (if mDecoder s \<noteq> None
      then (let s1 = decoder_call (WantsData packet) s in
            if wantsData ctl (calls s) packet
            then decoder_reset (decoder_call Deactivate s1)
            else s1)
      else s)"

definition processPause :: "Packet \<Rightarrow> RenderSession \<Rightarrow> RenderSession" where
  "processPause packet s = decoder_call PauseCall s"

definition processResume :: "Packet \<Rightarrow> RenderSession \<Rightarrow> RenderSession" where
  "processResume packet s = decoder_call ResumeCall s"

definition processTtmlTimestamp :: "Packet \<Rightarrow> RenderSession \<Rightarrow> RenderSession" where
  "processTtmlTimestamp packet s = decoder_call (ProcessTimestamp packet) s"

definition processWebvttTimestamp :: "Packet \<Rightarrow> RenderSession \<Rightarrow> RenderSession" where
  "processWebvttTimestamp packet s = decoder_call (ProcessTimestamp packet) s"

definition processTtmlInfo :: "Packet \<Rightarrow> RenderSession \<Rightarrow> RenderSession" where
  "processTtmlInfo packet s = decoder_call (ProcessInfo packet) s"

text \<open>
  \<open>doOnPacketReceived\<close>: the time is touched, then the switch on the packet type. \<open>now\<close>
  is the clock reading of this dispatch.
\<close>

definition doOnPacketReceived :: "Controllers \<Rightarrow> nat \<Rightarrow> Packet \<Rightarrow> RenderSession \<Rightarrow> RenderSession" where
  "doOnPacketReceived ctl now packet s =
     (let s0 = touchTime now s in
      case getType packet of
        SUBTITLE_SELECTION \<Rightarrow> processDecoderSelection packet s0
      | TELETEXT_SELECTION \<Rightarrow> processDecoderSelection packet s0
      | TTML_SELECTION \<Rightarrow> processDecoderSelection packet s0
      | WEBVTT_SELECTION \<Rightarrow> processDecoderSelection packet s0
      | PES_DATA \<Rightarrow> processDataPacket packet s0
      | TTML_DATA \<Rightarrow> processDataPacket packet s0
      | WEBVTT_DATA \<Rightarrow> processDataPacket packet s0
      | CC_DATA \<Rightarrow> processDataPacket packet s0
      | RESET_ALL \<Rightarrow> processResetAll packet s0
      | RESET_CHANNEL \<Rightarrow> processResetChannel ctl packet s0
      | TIMESTAMP \<Rightarrow> log_event (StcProcessTimestamp packet) s0
      | TTML_TIMESTAMP \<Rightarrow> processTtmlTimestamp packet s0
      | WEBVTT_TIMESTAMP \<Rightarrow> processWebvttTimestamp packet s0
      | PAUSE \<Rightarrow> processPause packet s0
      | RESUME \<Rightarrow> processResume packet s0
      | MUTE \<Rightarrow> processMutePacket packet s0
      | UNMUTE \<Rightarrow> processUnmutePacket packet s0
      | TTML_INFO \<Rightarrow> processTtmlInfo packet s0
      | SET_CC_ATTRIBUTES \<Rightarrow> processSetCCAttributes packet s0
      | INVALID \<Rightarrow> s0)"


text \<open>
  \<open>addBuffer\<close> of the \<^verbatim>\<open>PacketReceiver\<close> interface: a raw buffer is queued for the render
  thread only while a decoder is active.
\<close>

definition addBuffer :: "DataBuffer \<Rightarrow> RenderSession \<Rightarrow> RenderSession" where
  "addBuffer buffer s =
     (if isRenderingActive s then s\<lparr>mDataQueue := mDataQueue s @ [buffer]\<rparr> else s)"

text \<open>A sequence of dispatches, each with its clock reading.\<close>

fun dispatch_all :: "Controllers \<Rightarrow> (nat \<times> Packet) list \<Rightarrow> RenderSession \<Rightarrow> RenderSession" where
  "dispatch_all ctl [] s = s"
| "dispatch_all ctl (tp # tps) s = dispatch_all ctl tps (doOnPacketReceived ctl (fst tp) (snd tp) s)"

section \<open>Reading the call log\<close>

text \<open>
  A controller is active from its construction until it is deactivated (or destroyed),
  and alive from its construction until it is destroyed. Both functions update the list of
  such instances over one logged event.
\<close>

fun active_step :: "nat list \<Rightarrow> event \<Rightarrow> nat list" where
  "active_step A (DecoderCall i (Construct k p)) = i # A"
| "active_step A (DecoderCall i Deactivate) = removeAll i A"
| "active_step A (DecoderCall i Destroy) = removeAll i A"
| "active_step A e = A"

fun alive_step :: "nat list \<Rightarrow> event \<Rightarrow> nat list" where
  "alive_step A (DecoderCall i (Construct k p)) = i # A"
| "alive_step A (DecoderCall i Destroy) = removeAll i A"
| "alive_step A e = A"

fun is_construct :: "event \<Rightarrow> bool" where
  "is_construct (DecoderCall i (Construct k p)) = True"
| "is_construct e = False"

text \<open>
  \<open>at_most_one step A log\<close>: starting with the instances \<open>A\<close>, at every moment of the log
  (before each event and after the last) at most one instance is in the list that \<open>step\<close>
  maintains.
\<close>

fun at_most_one :: "(nat list \<Rightarrow> event \<Rightarrow> nat list) \<Rightarrow> nat list \<Rightarrow> event list \<Rightarrow> bool" where
  "at_most_one step A [] = (length A \<le> 1)"
| "at_most_one step A (e # es) = (length A \<le> 1 \<and> at_most_one step (step A e) es)"

text \<open>
  \<open>none_at_construct step A log\<close>: whenever the log constructs a controller, the list that
  \<open>step\<close> maintains is empty at that moment.
\<close>

fun none_at_construct :: "(nat list \<Rightarrow> event \<Rightarrow> nat list) \<Rightarrow> nat list \<Rightarrow> event list \<Rightarrow> bool" where
  "none_at_construct step A [] = True"
| "none_at_construct step A (e # es) =
     ((if is_construct e then A = [] else True) \<and> none_at_construct step (step A e) es)"

definition at_most_one_active :: "event list \<Rightarrow> bool" where
  "at_most_one_active log = at_most_one active_step [] log"

definition deactivated_before_construct :: "event list \<Rightarrow> bool" where
  "deactivated_before_construct log = none_at_construct active_step [] log"

definition released_before_construct :: "event list \<Rightarrow> bool" where
  "released_before_construct log = none_at_construct alive_step [] log"

definition is_selection :: "Packet \<Rightarrow> bool" where
  "is_selection p =
     (getType p = SUBTITLE_SELECTION \<or> getType p = TELETEXT_SELECTION
      \<or> getType p = TTML_SELECTION \<or> getType p = WEBVTT_SELECTION)"

definition is_data :: "Packet \<Rightarrow> bool" where
  "is_data p =
     (getType p = PES_DATA \<or> getType p = TTML_DATA \<or> getType p = WEBVTT_DATA
      \<or> getType p = CC_DATA)"

text \<open>
  The format a selection packet selects, as the two switches of
  \<open>processDecoderSelection\<close> decide it; \<open>None\<close> where they take a \<^verbatim>\<open>default:\<close> branch.
\<close>

definition selected_type :: "Packet \<Rightarrow> SessionType option" where
  "selected_type p =
     (case getType p of
        SUBTITLE_SELECTION \<Rightarrow>
          (case getSubtitlesType p of
             SUBTITLES_TYPE_DVB \<Rightarrow> Some DVB
           | SUBTITLES_TYPE_SCTE \<Rightarrow> Some SCTE
           | SUBTITLES_TYPE_CC \<Rightarrow> Some CC
           | SUBTITLES_TYPE_TELETEXT \<Rightarrow> Some TTX
           | SUBTITLES_TYPE_other \<Rightarrow> None)
      | TELETEXT_SELECTION \<Rightarrow> Some TTX
      | TTML_SELECTION \<Rightarrow> Some TTML
      | WEBVTT_SELECTION \<Rightarrow> Some WEBVTT
      | _ \<Rightarrow> None)"

text \<open>
  The invariant of the decoder slot: the instance it holds has been numbered, and it is
  the one instance the log leaves active and alive.
\<close>

definition slot :: "RenderSession \<Rightarrow> nat list" where
  "slot s = (case mDecoder s of None \<Rightarrow> [] | Some i \<Rightarrow> [i])"

definition session_inv :: "RenderSession \<Rightarrow> bool" where
  "session_inv s =
     ((case mDecoder s of None \<Rightarrow> True | Some i \<Rightarrow> i < nextInstance s)
      \<and> foldl active_step [] (calls s) = slot s
      \<and> foldl alive_step [] (calls s) = slot s
      \<and> at_most_one active_step [] (calls s)
      \<and> none_at_construct active_step [] (calls s))"

section \<open>The render thread\<close>

text \<open>
  The first loop of \<open>processData\<close>: while the queue is not empty its front buffer is
  taken off, parsed and dispatched. A dispatch never adds to the queue, so the loop ends.
\<close>

lemma dispatch_queue_length:
  "length (mDataQueue (doOnPacketReceived ctl now p s)) \<le> length (mDataQueue s)"
  by (cases "getType p"; cases "getSubtitlesType p"; cases "mDecoder s")
     (simp_all add: doOnPacketReceived_def processDecoderSelection_def processDataPacket_def
        processMutePacket_def processUnmutePacket_def processSetCCAttributes_def
        processResetAll_def processResetChannel_def processPause_def processResume_def
        processTtmlTimestamp_def processWebvttTimestamp_def processTtmlInfo_def
        decoder_call_def decoder_reset_def decoder_reset_new_def log_event_def touchTime_def
        Let_def)

function processData_drain :: "Controllers \<Rightarrow> nat \<Rightarrow> RenderSession \<Rightarrow> RenderSession" where
  "processData_drain ctl now s =
     (if mDataQueue s = [] then s
      else processData_drain ctl now
             (doOnPacketReceived ctl now (parse ctl (hd (mDataQueue s)))
                (s\<lparr>mDataQueue := tl (mDataQueue s)\<rparr>)))"
  by pat_completeness auto
termination
proof (relation "measure (\<lambda>(ctl, now, s). length (mDataQueue s))")
  show "wf (measure (\<lambda>(ctl, now, s). length (mDataQueue s)))"
    by simp
next
  fix ctl :: Controllers and now :: nat and s :: RenderSession
  assume "mDataQueue s \<noteq> []"
  then have "length (mDataQueue (s\<lparr>mDataQueue := tl (mDataQueue s)\<rparr>)) < length (mDataQueue s)"
    by (cases "mDataQueue s") simp_all
  with dispatch_queue_length
         [of ctl now "parse ctl (hd (mDataQueue s))" "s\<lparr>mDataQueue := tl (mDataQueue s)\<rparr>"]
  show "((ctl, now,
          doOnPacketReceived ctl now (parse ctl (hd (mDataQueue s)))
            (s\<lparr>mDataQueue := tl (mDataQueue s)\<rparr>)),
         (ctl, now, s)) \<in> measure (\<lambda>(ctl, now, s). length (mDataQueue s))"
    by simp
qed

declare processData_drain.simps [simp del]

text \<open>
  \<open>processData\<close>: the queue is drained, then the decoder (if any) processes and tells
  how long to wait; with no decoder the wait is zero.
\<close>

definition processData :: "Controllers \<Rightarrow> nat \<Rightarrow> RenderSession \<Rightarrow> nat \<times> RenderSession" where
  "processData ctl now s =
     (let s1 = processData_drain ctl now s in
      if mDecoder s1 \<noteq> None
      then (let s2 = decoder_call GetWaitTime (decoder_call Process s1)
            in (getWaitTime ctl (calls s2), s2))
      else (0, s1))"

text \<open>
  \<open>processLoop\<close>, one step at a time. The thread is at the test of the outer loop, in the
  outer wait, at the test of the inner loop, in the timed wait after a pass, at the
  clearing of the queue after the inner loop, or has left the loop. A wait that cannot end
  yet keeps its place; the timed wait ends by its timeout or by the quit flag.
\<close>

datatype loop_pc = OuterTest | OuterWait | InnerTest | InnerWait nat | ClearQueue | Exited

fun processLoop_step :: "Controllers \<Rightarrow> nat \<Rightarrow> loop_pc \<times> RenderSession \<Rightarrow> loop_pc \<times> RenderSession" where
  "processLoop_step ctl now (OuterTest, s) =
     (if mQuitRenderThread s then (Exited, s) else (OuterWait, s))"
| "processLoop_step ctl now (OuterWait, s) =
     (if mQuitRenderThread s \<or> (isRenderingActive s \<and> isDataQueued s)
      then (InnerTest, s) else (OuterWait, s))"
| "processLoop_step ctl now (InnerTest, s) =
     (if \<not> mQuitRenderThread s \<and> isRenderingActive s
      then (let (processWaitTime, s1) = processData ctl now s;
                s2 = log_event GfxExecute s1
            in if processWaitTime = 0 then (ClearQueue, s2)
               else (InnerWait processWaitTime, s2))
      else (ClearQueue, s))"
| "processLoop_step ctl now (InnerWait w, s) = (InnerTest, s)"
| "processLoop_step ctl now (ClearQueue, s) = (OuterTest, s\<lparr>mDataQueue := []\<rparr>)"
| "processLoop_step ctl now (Exited, s) = (Exited, s)"

text \<open>
  Two sessions that agree in every field but, possibly, the ingress queue.
\<close>

definition same_apart_from_queue :: "RenderSession \<Rightarrow> RenderSession \<Rightarrow> bool" where
  "same_apart_from_queue a b = (a\<lparr>mDataQueue := mDataQueue b\<rparr> = b)"

section \<open>Building packets\<close>

text \<open>
  \<open>BuildPacket\<close> copies the object representation of a \<^verbatim>\<open>uint32_t\<close> into the buffer, and
  stores one through a cast pointer: the bytes are in the byte order of the host.
  \<open>u32_le\<close> is the little-endian representation, \<open>le_u32\<close> reads one back.
\<close>

datatype ByteOrder = LittleEndian | BigEndian

definition u32_le :: "u32 \<Rightarrow> u8 list" where
  "u32_le v = [ucast v, ucast (drop_bit 8 v), ucast (drop_bit 16 v), ucast (drop_bit 24 v)]"

definition le_u32 :: "u8 list \<Rightarrow> u32" where
  "le_u32 bs =
     (case bs of
        b0 # b1 # b2 # b3 # _ \<Rightarrow>
          ucast b0 OR push_bit 8 (ucast b1) OR push_bit 16 (ucast b2) OR push_bit 24 (ucast b3)
      | _ \<Rightarrow> 0)"

definition object_bytes :: "ByteOrder \<Rightarrow> u32 \<Rightarrow> u8 list" where
  "object_bytes bo v = (case bo of LittleEndian \<Rightarrow> u32_le v | BigEndian \<Rightarrow> rev (u32_le v))"

text \<open>\<^verbatim>\<open>*reinterpret_cast<uint32_t *>(pBuffer->data() + off) = v\<close>, for \<open>off + 4\<close> within the buffer.\<close>

definition store_u32 :: "ByteOrder \<Rightarrow> nat \<Rightarrow> u32 \<Rightarrow> DataBuffer \<Rightarrow> DataBuffer" where
  "store_u32 bo off v buf = take off buf @ object_bytes bo v @ drop (off + 4) buf"

text \<open>\<^verbatim>\<open>operator()(uint32_t v)\<close>: the four bytes of \<open>v\<close> are appended.\<close>

definition BuildPacket_app :: "ByteOrder \<Rightarrow> u32 \<Rightarrow> DataBuffer \<Rightarrow> DataBuffer" where
  "BuildPacket_app bo v buf = buf @ object_bytes bo v"

text \<open>
  The constructor appends the type, the incremented counter, 0 and 1 to an empty buffer.
  \<open>sCounter\<close> is the static counter; the new counter is returned with the buffer.
\<close>

definition BuildPacket_ctor :: "ByteOrder \<Rightarrow> u32 \<Rightarrow> u32 \<Rightarrow> u32 \<times> DataBuffer" where
  "BuildPacket_ctor bo type sCounter =
     (let c = sCounter + 1
      in (c, BuildPacket_app bo 1 (BuildPacket_app bo 0 (BuildPacket_app bo c
               (BuildPacket_app bo type [])))))"

definition BuildPacket_type :: "ByteOrder \<Rightarrow> u32 \<Rightarrow> DataBuffer \<Rightarrow> DataBuffer" where
  "BuildPacket_type bo type buf = (if length buf \<ge> 4 then store_u32 bo 0 type buf else buf)"

text \<open>
  \<open>done\<close>: the size of the buffer less 12 is stored at offset 8, converted from
  \<^verbatim>\<open>size_t\<close> to \<^verbatim>\<open>uint32_t\<close>. The conversion to \<^verbatim>\<open>DataBufferPtr\<close> calls it.
\<close>

definition BuildPacket_done :: "ByteOrder \<Rightarrow> DataBuffer \<Rightarrow> DataBuffer" where
  "BuildPacket_done bo buf =
     (if length buf \<ge> 12 then store_u32 bo 8 (of_nat (length buf - 12)) buf else buf)"

text \<open>
  \<open>sendData\<close>. \<open>tc\<close> gives the numeric value of a packet type (the enum is declared in
  subttxrend). The negation of \<open>offsetMs\<close> is two's complement: at the least 64-bit
  value, where the source's signed negation overflows, it gives that value back.
\<close>

definition UINT32_MAX :: i64 where
  "UINT32_MAX = 0xFFFFFFFF"

definition sendData_packet ::
  "ByteOrder \<Rightarrow> (PacketType \<Rightarrow> u32) \<Rightarrow> DataType \<Rightarrow> u8 list \<Rightarrow> i64 \<Rightarrow> u32 \<Rightarrow> u32 \<times> DataBuffer option" where
  "sendData_packet bo tc type data offsetMs sCounter =
     (let (c, bp) = BuildPacket_ctor bo (tc INVALID) sCounter;
          built =
            (case type of
               DT_PES \<Rightarrow> Some (BuildPacket_app bo 0 (BuildPacket_type bo (tc PES_DATA) bp))
             | DT_TTML \<Rightarrow>
                 Some (BuildPacket_app bo (ucast (signed_drop_bit 32 offsetMs))
                        (BuildPacket_app bo (ucast (offsetMs AND UINT32_MAX))
                          (BuildPacket_type bo (tc TTML_DATA) bp)))
             | DT_WEBVTT \<Rightarrow>
                 (let offsetMs = - offsetMs
                  in Some (BuildPacket_app bo (ucast (signed_drop_bit 32 offsetMs))
                            (BuildPacket_app bo (ucast (offsetMs AND UINT32_MAX))
                              (BuildPacket_type bo (tc WEBVTT_DATA) bp))))
             | DT_CC \<Rightarrow>
                 Some (BuildPacket_app bo 0 (BuildPacket_app bo 0 (BuildPacket_app bo 3
                        (BuildPacket_type bo (tc CC_DATA) bp))))
             | DT_other \<Rightarrow> None)
      in (c, map_option (\<lambda>b. BuildPacket_done bo (b @ data)) built))"

definition sendData ::
  "ByteOrder \<Rightarrow> (PacketType \<Rightarrow> u32) \<Rightarrow> DataType \<Rightarrow> u8 list \<Rightarrow> i64 \<Rightarrow> u32 \<times> RenderSession
     \<Rightarrow> bool \<times> u32 \<times> RenderSession" where
  "sendData bo tc type data offsetMs st =
     (case sendData_packet bo tc type data offsetMs (fst st) of
        (c, None) \<Rightarrow> (False, c, snd st)
      | (c, Some buffer) \<Rightarrow> (True, c, addBuffer buffer (snd st)))"

text \<open>
  Reading a data packet back: the 64-bit value whose low word is the little-endian word
  at byte 16 and whose high word is the one at byte 20, after the three words of the
  header and the word 1.
\<close>

definition join64 :: "u32 \<Rightarrow> u32 \<Rightarrow> i64" where
  "join64 lo hi = ucast lo OR push_bit 32 (ucast hi)"

definition encoded_offset :: "DataBuffer \<Rightarrow> i64" where
  "encoded_offset buf = join64 (le_u32 (drop 16 buf)) (le_u32 (drop 20 buf))"

definition INT64_MIN :: i64 where
  "INT64_MIN = - 9223372036854775808"

section \<open>The session registry\<close>

text \<open>
  \<open>start\<close>: a no-op on a started session. Otherwise the session is marked started, and
  when it has a socket name and the socket source cannot be created the function throws
  (the flag of the result); else the render thread is started. \<open>socketCreate\<close> tells
  whether the socket source of that name can be created.
\<close>

definition start :: "(string \<Rightarrow> bool) \<Rightarrow> RenderSession \<Rightarrow> bool \<times> RenderSession" where
  "start socketCreate s =
     (if mStarted s then (False, s)
      else (let s1 = s\<lparr>mStarted := True\<rparr>
            in if mSocketName s1 \<noteq> [] \<and> \<not> socketCreate (mSocketName s1) then (True, s1)
               else (False, s1\<lparr>mQuitRenderThread := False\<rparr>)))"

definition setTextForClosedCaptionPreview :: "string \<Rightarrow> RenderSession \<Rightarrow> RenderSession" where
  "setTextForClosedCaptionPreview text s =
     (let s1 = s\<lparr>mPreviewText := text\<rparr>
      in if mDecoder s1 \<noteq> None \<and> mSessionType s1 = CC
         then decoder_call (SetTextForPreview text) s1 else s1)"

datatype hresult = ERROR_NONE | ERROR_GENERAL | ERROR_NOT_SUPPORTED

text \<open>
  \<open>mSessions\<close> is a \<^verbatim>\<open>std::map<unsigned, SessionInfo>\<close>: a list of pairs in the order
  of the keys. \<open>map_find\<close> is \<^verbatim>\<open>find\<close> by key, \<open>map_emplace\<close> inserts where the key is
  not present yet, and \<open>update_at\<close> changes, through the iterator a search returned, the
  first element the search accepts.
\<close>

record TextTrackImplementation =
  mSessions :: "(u32 \<times> RenderSession) list"
  mSessionNumber :: u32

definition map_find :: "u32 \<Rightarrow> (u32 \<times> 'v) list \<Rightarrow> (u32 \<times> 'v) option" where
  "map_find k m = find (\<lambda>elm. fst elm = k) m"

fun map_emplace :: "u32 \<Rightarrow> 'v \<Rightarrow> (u32 \<times> 'v) list \<Rightarrow> (u32 \<times> 'v) list" where
  "map_emplace k v [] = [(k, v)]"
| "map_emplace k v (e # m) =
     (if fst e = k then e # m
      else if k < fst e then (k, v) # e # m
      else e # map_emplace k v m)"

fun update_at :: "('a \<Rightarrow> bool) \<Rightarrow> ('a \<Rightarrow> 'a) \<Rightarrow> 'a list \<Rightarrow> 'a list" where
  "update_at P f [] = []"
| "update_at P f (x # xs) = (if P x then f x # xs else x # update_at P f xs)"

text \<open>
  What \<open>OpenSession\<close> depends on outside the registry: whether the display can be
  ensured (always, in a build without RDKShell), whether constructing a session for a
  display throws, and whether a socket source can be created.
\<close>

record Host =
  ensureDisplayIsCreated :: "string \<Rightarrow> bool"
  sessionCtorThrows :: "string \<Rightarrow> bool"
  socketCreate :: "string \<Rightarrow> bool"

datatype outcome = Returns hresult | Throws

text \<open>
  \<open>OpenSession\<close>. \<open>oSessionId\<close> is the caller's variable behind the reference; the
  result holds its value after the call. The call on an existing session's \<open>start\<close> is
  outside the \<^verbatim>\<open>try\<close>, so what it throws leaves \<open>OpenSession\<close>; what the construction
  and the start of a new session throw is caught, and the call returns \<open>ERROR_NONE\<close>.
\<close>

definition OpenSession ::
  "Host \<Rightarrow> nat \<Rightarrow> string \<Rightarrow> u32 \<Rightarrow> TextTrackImplementation
     \<Rightarrow> outcome \<times> u32 \<times> TextTrackImplementation" where
  "OpenSession host now iDisplayName oSessionId t =
     (if iDisplayName = [] then (Returns ERROR_GENERAL, oSessionId, t)
      else
        (case find (\<lambda>elm. getDisplayName (snd elm) = iDisplayName) (mSessions t) of
           Some existingSession \<Rightarrow>
             (let started = start (socketCreate host) (snd existingSession);
                  t1 = t\<lparr>mSessions :=
                          update_at (\<lambda>elm. getDisplayName (snd elm) = iDisplayName)
                            (\<lambda>elm. (fst elm, snd started)) (mSessions t)\<rparr>
              in (if fst started then Throws else Returns ERROR_NONE,
                  fst existingSession, t1))
         | None \<Rightarrow>
             (let n = mSessionNumber t + 1;
                  t1 = t\<lparr>mSessionNumber := n\<rparr>
              in if \<not> ensureDisplayIsCreated host iDisplayName
                 then (Returns ERROR_GENERAL, n, t1)
                 else if sessionCtorThrows host iDisplayName
                 then (Returns ERROR_NONE, n, t1)
                 else
                   (let started = start (socketCreate host)
                                    (RenderSession_ctor iDisplayName [] now)
                    in if fst started then (Returns ERROR_NONE, n, t1)
                       else (Returns ERROR_NONE, n,
                             t1\<lparr>mSessions := map_emplace n (snd started) (mSessions t1)\<rparr>)))))"

definition SetPreviewText ::
  "nat \<Rightarrow> u32 \<Rightarrow> string \<Rightarrow> TextTrackImplementation \<Rightarrow> hresult \<times> TextTrackImplementation" where
  "SetPreviewText now sessionId text t =
     (case map_find sessionId (mSessions t) of
        Some ses_it \<Rightarrow>
          (if getSessionType (snd ses_it) = CC
           then (ERROR_NONE,
                 t\<lparr>mSessions :=
                     update_at (\<lambda>elm. fst elm = sessionId)
                       (\<lambda>elm. (fst elm,
                                setTextForClosedCaptionPreview text (touchTime now (snd elm))))
                       (mSessions t)\<rparr>)
           else (ERROR_NOT_SUPPORTED, t))
      | None \<Rightarrow> (ERROR_GENERAL, t))"

section \<open>Concrete inputs\<close>

definition ex_packet :: "PacketType \<Rightarrow> Packet" where
  "ex_packet t = \<lparr> getType = t, getSubtitlesType = SUBTITLES_TYPE_other, getBuffer = [] \<rparr>"

definition ex_cc_selection :: Packet where
  "ex_cc_selection =
     \<lparr> getType = SUBTITLE_SELECTION, getSubtitlesType = SUBTITLES_TYPE_CC, getBuffer = [] \<rparr>"

definition ex_controllers :: "bool \<Rightarrow> nat \<Rightarrow> Controllers" where
  "ex_controllers wants wait =
     \<lparr> wantsData = (\<lambda>h p. wants), getWaitTime = (\<lambda>h. wait),
       parse = (\<lambda>b. \<lparr> getType = INVALID, getSubtitlesType = SUBTITLES_TYPE_other,
                       getBuffer = b \<rparr>) \<rparr>"

definition ex_session :: RenderSession where
  "ex_session = RenderSession_ctor ''disp0'' [] 0"

text \<open>A session on which closed captions have been selected: instance 0 is active.\<close>

definition ex_cc_session :: RenderSession where
  "ex_cc_session = doOnPacketReceived (ex_controllers True 0) 1 ex_cc_selection ex_session"

text \<open>
  A session that lost its decoder while a buffer was queued: closed captions selected, one
  buffer queued, then a reset-channel packet the decoder claims.
\<close>

definition ex_orphan_session :: RenderSession where
  "ex_orphan_session =
     doOnPacketReceived (ex_controllers True 0) 2 (ex_packet RESET_CHANNEL)
       (addBuffer [1, 2, 3] ex_cc_session)"

text \<open>A stand-in numbering of the packet types for the examples.\<close>

definition ex_type_code :: "PacketType \<Rightarrow> u32" where
  "ex_type_code t = (case t of INVALID \<Rightarrow> 0xFFFFFFFF | TTML_DATA \<Rightarrow> 8 | WEBVTT_DATA \<Rightarrow> 16 | _ \<Rightarrow> 1)"

text \<open>The pause packet built when the static counter is 0, with 11 for its type.\<close>

definition ex_pause_buffer :: DataBuffer where
  "ex_pause_buffer = BuildPacket_done LittleEndian (snd (BuildPacket_ctor LittleEndian 11 0))"

text \<open>The closed-caption session with one buffer queued for the render thread.\<close>

definition ex_busy_session :: RenderSession where
  "ex_busy_session = addBuffer [1, 2, 3] ex_cc_session"

text \<open>
  A registry with two started sessions: 1 has closed captions selected, 2 has nothing
  selected. The host of the examples can do everything.
\<close>

definition ex_host :: Host where
  "ex_host = \<lparr> ensureDisplayIsCreated = (\<lambda>d. True), sessionCtorThrows = (\<lambda>d. False),
               socketCreate = (\<lambda>n. True) \<rparr>"

definition ex_registry :: TextTrackImplementation where
  "ex_registry =
     \<lparr> mSessions = [(1, ex_cc_session\<lparr>mStarted := True\<rparr>),
                     (2, (RenderSession_ctor ''disp1'' [] 0)\<lparr>mStarted := True\<rparr>)],
       mSessionNumber = 2 \<rparr>"

section \<open>Dispatch of single packets\<close>

lemmas call_defs = decoder_call_def decoder_reset_def decoder_reset_new_def log_event_def
  touchTime_def

lemmas ex_defs = ex_packet_def ex_cc_selection_def ex_controllers_def ex_session_def
  ex_cc_session_def RenderSession_ctor_def

lemma ex_cc_session_eq:
  "ex_cc_session =
     \<lparr> mSessionType = CC, mDisplayName = ''disp0'', mSocketName = [],
       mStarted = False, mLastActiveTime = 1, mPreviewText = [],
       mHasCustomTtmlStyling = False, mDecoder = Some 0, mQuitRenderThread = False,
       mDataQueue = [], calls = [DecoderCall 0 (Construct CC ex_cc_selection)],
       nextInstance = 1 \<rparr>"
  by (simp add: ex_defs doOnPacketReceived_def processDecoderSelection_def call_defs)

text \<open>
  Claim C5. A reset-channel packet makes the session ask the active decoder whether the
  packet is for it. The decoder is deactivated and dropped exactly when it answers yes.
  When it answers no, or when there is no decoder, the session is as before, apart from
  the last-activity time every dispatch refreshes and the logged query.
\<close>

theorem reset_channel_drops_iff_wantsData:
  assumes "getType p = RESET_CHANNEL"
  shows "doOnPacketReceived ctl now p s =
           (case mDecoder s of
              None \<Rightarrow> s\<lparr>mLastActiveTime := now\<rparr>
            | Some i \<Rightarrow>
                if wantsData ctl (calls s) p
                then s\<lparr>mLastActiveTime := now, mDecoder := None,
                       calls := calls s @ [DecoderCall i (WantsData p), DecoderCall i Deactivate,
                                           DecoderCall i Destroy]\<rparr>
                else s\<lparr>mLastActiveTime := now,
                       calls := calls s @ [DecoderCall i (WantsData p)]\<rparr>)
         \<and> (mDecoder s \<noteq> None \<and> mDecoder (doOnPacketReceived ctl now p s) = None)
             = (mDecoder s \<noteq> None \<and> wantsData ctl (calls s) p)"
  using assms
  by (auto simp: doOnPacketReceived_def processResetChannel_def call_defs Let_def
           split: option.splits)

theorem reset_channel_drops_iff_wantsData_witness:
  "getType (ex_packet RESET_CHANNEL) = RESET_CHANNEL
   \<and> mDecoder ex_cc_session = Some 0
   \<and> mDecoder (doOnPacketReceived (ex_controllers True 0) 2 (ex_packet RESET_CHANNEL)
                 ex_cc_session) = None
   \<and> calls (doOnPacketReceived (ex_controllers True 0) 2 (ex_packet RESET_CHANNEL)
                 ex_cc_session)
       = [DecoderCall 0 (Construct CC ex_cc_selection),
          DecoderCall 0 (WantsData (ex_packet RESET_CHANNEL)),
          DecoderCall 0 Deactivate, DecoderCall 0 Destroy]
   \<and> doOnPacketReceived (ex_controllers False 0) 2 (ex_packet RESET_CHANNEL) ex_cc_session
       = ex_cc_session\<lparr>mLastActiveTime := 2,
           calls := calls ex_cc_session @ [DecoderCall 0 (WantsData (ex_packet RESET_CHANNEL))]\<rparr>
   \<and> doOnPacketReceived (ex_controllers True 0) 2 (ex_packet RESET_CHANNEL) ex_session
       = ex_session\<lparr>mLastActiveTime := 2\<rparr>"
proof -
  have t: "getType (ex_packet RESET_CHANNEL) = RESET_CHANNEL"
    by (simp add: ex_packet_def)
  have w: "wantsData (ex_controllers True 0) h q" "\<not> wantsData (ex_controllers False 0) h q"
    for h q
    by (simp_all add: ex_controllers_def)
  have n: "mDecoder ex_session = None"
    by (simp add: ex_session_def RenderSession_ctor_def)
  show ?thesis
    using reset_channel_drops_iff_wantsData [OF t, of "ex_controllers True 0" 2 ex_cc_session]
      reset_channel_drops_iff_wantsData [OF t, of "ex_controllers False 0" 2 ex_cc_session]
      reset_channel_drops_iff_wantsData [OF t, of "ex_controllers True 0" 2 ex_session]
    by (simp add: t w n ex_cc_session_eq)
qed


text \<open>
  Claim C8. With no decoder active, a mute, unmute, pause or resume packet calls nothing
  and leaves the session as it was (only the last-activity time, which every dispatch
  refreshes, is new). Whatever is dispatched afterwards, a selection included, gives the
  session and the call log it would have given had the packet never arrived: the
  decoder constructed later is never muted or paused for it.
\<close>

theorem transport_packet_without_decoder_dropped:
  assumes "getType p = MUTE \<or> getType p = UNMUTE \<or> getType p = PAUSE \<or> getType p = RESUME"
      and "mDecoder s = None"
  shows "doOnPacketReceived ctl now p s = s\<lparr>mLastActiveTime := now\<rparr>
         \<and> calls (doOnPacketReceived ctl now p s) = calls s
         \<and> doOnPacketReceived ctl now' sel (doOnPacketReceived ctl now p s)
             = doOnPacketReceived ctl now' sel s"
proof -
  have dropped: "doOnPacketReceived ctl now p s = s\<lparr>mLastActiveTime := now\<rparr>"
    using assms
    by (auto simp: doOnPacketReceived_def processMutePacket_def processUnmutePacket_def
          processPause_def processResume_def call_defs)
  have "touchTime now' (s\<lparr>mLastActiveTime := now\<rparr>) = touchTime now' s"
    by (simp add: touchTime_def)
  then have "doOnPacketReceived ctl now' sel (s\<lparr>mLastActiveTime := now\<rparr>)
             = doOnPacketReceived ctl now' sel s"
    by (simp add: doOnPacketReceived_def)
  with dropped show ?thesis by simp
qed

theorem transport_packet_without_decoder_dropped_witness:
  "(getType (ex_packet MUTE) = MUTE \<or> getType (ex_packet MUTE) = UNMUTE
      \<or> getType (ex_packet MUTE) = PAUSE \<or> getType (ex_packet MUTE) = RESUME)
   \<and> mDecoder ex_session = None
   \<and> doOnPacketReceived (ex_controllers True 0) 5 (ex_packet MUTE) ex_session
       = ex_session\<lparr>mLastActiveTime := 5\<rparr>
   \<and> calls (doOnPacketReceived (ex_controllers True 0) 6 ex_cc_selection
               (doOnPacketReceived (ex_controllers True 0) 5 (ex_packet MUTE) ex_session))
       = [DecoderCall 0 (Construct CC ex_cc_selection)]"
proof -
  have t: "getType (ex_packet MUTE) = MUTE \<or> getType (ex_packet MUTE) = UNMUTE
      \<or> getType (ex_packet MUTE) = PAUSE \<or> getType (ex_packet MUTE) = RESUME"
    by (simp add: ex_packet_def)
  have n: "mDecoder ex_session = None"
    by (simp add: ex_session_def RenderSession_ctor_def)
  have c: "calls (doOnPacketReceived (ex_controllers True 0) 6 ex_cc_selection ex_session)
           = [DecoderCall 0 (Construct CC ex_cc_selection)]"
    by (simp add: ex_defs doOnPacketReceived_def processDecoderSelection_def call_defs)
  note th = transport_packet_without_decoder_dropped
              [OF t n, of "ex_controllers True 0" 5 6 ex_cc_selection]
  from th have a: "doOnPacketReceived (ex_controllers True 0) 5 (ex_packet MUTE) ex_session
                   = ex_session\<lparr>mLastActiveTime := 5\<rparr>"
    by (rule conjunct1)
  from th have "doOnPacketReceived (ex_controllers True 0) 6 ex_cc_selection
                  (doOnPacketReceived (ex_controllers True 0) 5 (ex_packet MUTE) ex_session)
                = doOnPacketReceived (ex_controllers True 0) 6 ex_cc_selection ex_session"
    by (rule conjunct2 [THEN conjunct2])
  with c have b: "calls (doOnPacketReceived (ex_controllers True 0) 6 ex_cc_selection
               (doOnPacketReceived (ex_controllers True 0) 5 (ex_packet MUTE) ex_session))
       = [DecoderCall 0 (Construct CC ex_cc_selection)]"
    by (simp only:)
  from t n a b show ?thesis by (intro conjI)
qed

text \<open>
  Claim C3, as stated, fails: the session never compares a data packet's format with the
  active format. With the closed-caption decoder active, a WebVTT data packet is handed to
  that decoder through \<open>addData\<close>.
\<close>

theorem data_for_other_format_counterexample:
  "getType (ex_packet WEBVTT_DATA) = WEBVTT_DATA
   \<and> mSessionType ex_cc_session = CC
   \<and> mDecoder ex_cc_session = Some 0
   \<and> calls (doOnPacketReceived (ex_controllers True 0) 2 (ex_packet WEBVTT_DATA) ex_cc_session)
       = calls ex_cc_session @ [DecoderCall 0 (AddData (ex_packet WEBVTT_DATA))]"
  by (simp add: ex_cc_session_eq ex_packet_def doOnPacketReceived_def processDataPacket_def
        call_defs)

text \<open>
  Claim C3, amended. A data packet (PES, TTML, WebVTT or CC data) is dropped when no decoder
  is active, and otherwise handed to the active decoder through \<open>addData\<close>, whatever
  the active format is; nothing else changes but the last-activity time.
\<close>

theorem data_packet_forwarded_to_active_decoder:
  assumes "is_data p"
  shows "doOnPacketReceived ctl now p s =
           (case mDecoder s of
              None \<Rightarrow> s\<lparr>mLastActiveTime := now\<rparr>
            | Some i \<Rightarrow> s\<lparr>mLastActiveTime := now,
                          calls := calls s @ [DecoderCall i (AddData p)]\<rparr>)"
  using assms
  by (auto simp: is_data_def doOnPacketReceived_def processDataPacket_def call_defs
           split: option.splits)

theorem data_packet_forwarded_to_active_decoder_witness:
  "is_data (ex_packet TTML_DATA)
   \<and> doOnPacketReceived (ex_controllers True 0) 2 (ex_packet TTML_DATA) ex_session
       = ex_session\<lparr>mLastActiveTime := 2\<rparr>
   \<and> doOnPacketReceived (ex_controllers True 0) 2 (ex_packet TTML_DATA) ex_cc_session
       = ex_cc_session\<lparr>mLastActiveTime := 2,
           calls := [DecoderCall 0 (Construct CC ex_cc_selection),
                     DecoderCall 0 (AddData (ex_packet TTML_DATA))]\<rparr>"
proof -
  have d: "is_data (ex_packet TTML_DATA)"
    by (simp add: is_data_def ex_packet_def)
  have n: "mDecoder ex_session = None"
    by (simp add: ex_session_def RenderSession_ctor_def)
  show ?thesis
    using data_packet_forwarded_to_active_decoder [OF d, of "ex_controllers True 0" 2 ex_session]
      data_packet_forwarded_to_active_decoder [OF d, of "ex_controllers True 0" 2 ex_cc_session]
    by (simp add: d n ex_cc_session_eq)
qed

lemma ex_orphan_session_eq:
  "ex_orphan_session =
     \<lparr> mSessionType = CC, mDisplayName = ''disp0'', mSocketName = [],
       mStarted = False, mLastActiveTime = 2, mPreviewText = [],
       mHasCustomTtmlStyling = False, mDecoder = None, mQuitRenderThread = False,
       mDataQueue = [[1, 2, 3]],
       calls = [DecoderCall 0 (Construct CC ex_cc_selection),
                DecoderCall 0 (WantsData (ex_packet RESET_CHANNEL)),
                DecoderCall 0 Deactivate, DecoderCall 0 Destroy],
       nextInstance = 1 \<rparr>"
  by (simp add: ex_orphan_session_def ex_cc_session_eq addBuffer_def isRenderingActive_def
        ex_packet_def ex_controllers_def doOnPacketReceived_def processResetChannel_def
        call_defs)

text \<open>
  Claim C4, as stated, fails: the queue is cleared under the same \<^verbatim>\<open>if (mDecoder)\<close> that
  guards the deactivation. A session can lose its decoder while a buffer is queued (a
  reset-channel packet dispatched from the producer's side before the render thread
  runs), and a reset-all packet then leaves the buffer in the queue.
\<close>

theorem reset_all_keeps_queue_counterexample:
  "getType (ex_packet RESET_ALL) = RESET_ALL
   \<and> mDecoder ex_orphan_session = None
   \<and> mDataQueue ex_orphan_session = [[1, 2, 3]]
   \<and> mDataQueue (doOnPacketReceived (ex_controllers True 0) 3 (ex_packet RESET_ALL)
                    ex_orphan_session) = [[1, 2, 3]]"
  by (simp add: ex_orphan_session_eq ex_packet_def doOnPacketReceived_def processResetAll_def
        call_defs)

text \<open>
  Claim C4, amended. A reset-all packet dispatched while a decoder is active clears the
  whole ingress queue, then deactivates and destroys the decoder; dispatched while no
  decoder is active it changes nothing but the last-activity time (the queue keeps its
  contents). Either way no decoder is active afterwards.
\<close>

theorem reset_all_clears_queue_and_drops_decoder:
  assumes "getType p = RESET_ALL"
  shows "doOnPacketReceived ctl now p s =
           (case mDecoder s of
              None \<Rightarrow> s\<lparr>mLastActiveTime := now\<rparr>
            | Some i \<Rightarrow> s\<lparr>mLastActiveTime := now, mDataQueue := [], mDecoder := None,
                          calls := calls s @ [DecoderCall i Deactivate, DecoderCall i Destroy]\<rparr>)
         \<and> mDecoder (doOnPacketReceived ctl now p s) = None"
  using assms
  by (auto simp: doOnPacketReceived_def processResetAll_def call_defs Let_def
           split: option.splits)

theorem reset_all_clears_queue_and_drops_decoder_witness:
  "getType (ex_packet RESET_ALL) = RESET_ALL
   \<and> doOnPacketReceived (ex_controllers True 0) 3 (ex_packet RESET_ALL)
        (addBuffer [1, 2, 3] ex_cc_session)
       = ex_cc_session\<lparr>mLastActiveTime := 3, mDataQueue := [], mDecoder := None,
           calls := [DecoderCall 0 (Construct CC ex_cc_selection),
                     DecoderCall 0 Deactivate, DecoderCall 0 Destroy]\<rparr>
   \<and> mDataQueue (addBuffer [1, 2, 3] ex_cc_session) = [[1, 2, 3]]"
proof -
  have t: "getType (ex_packet RESET_ALL) = RESET_ALL"
    by (simp add: ex_packet_def)
  have q: "addBuffer [1, 2, 3] ex_cc_session = ex_cc_session\<lparr>mDataQueue := [[1, 2, 3]]\<rparr>"
    by (simp add: addBuffer_def isRenderingActive_def ex_cc_session_eq)
  show ?thesis
    using reset_all_clears_queue_and_drops_decoder
            [OF t, of "ex_controllers True 0" 3 "addBuffer [1, 2, 3] ex_cc_session"]
    unfolding q by (simp add: t ex_cc_session_eq)
qed


section \<open>The decoder slot across dispatches\<close>

lemma at_most_one_append:
  "at_most_one step A (xs @ ys) =
     (at_most_one step A xs \<and> at_most_one step (foldl step A xs) ys)"
  by (induction xs arbitrary: A) (auto, (cases ys; simp)+)

lemma none_at_construct_append:
  "none_at_construct step A (xs @ ys) =
     (none_at_construct step A xs \<and> none_at_construct step (foldl step A xs) ys)"
  by (induction xs arbitrary: A) auto

lemmas process_defs = processDecoderSelection_def processDataPacket_def processMutePacket_def
  processUnmutePacket_def processSetCCAttributes_def processResetAll_def
  processResetChannel_def processPause_def processResume_def processTtmlTimestamp_def
  processWebvttTimestamp_def processTtmlInfo_def

lemma session_inv_ctor: "session_inv (RenderSession_ctor d sock t0)"
  by (simp add: session_inv_def slot_def RenderSession_ctor_def)

lemma session_inv_dispatch:
  "session_inv s \<Longrightarrow> session_inv (doOnPacketReceived ctl now p s)"
  unfolding session_inv_def slot_def
  by (cases "getType p"; cases "getSubtitlesType p"; cases "mDecoder s")
     (auto simp: doOnPacketReceived_def process_defs call_defs Let_def
        at_most_one_append none_at_construct_append)

lemma session_inv_dispatch_all:
  "session_inv s \<Longrightarrow> session_inv (dispatch_all ctl tps s)"
  by (induction tps arbitrary: s) (simp_all add: session_inv_dispatch)

lemma selection_log:
  assumes "is_selection p" and "mDecoder s = Some i"
  shows "calls (doOnPacketReceived ctl now p s) =
           calls s @ DecoderCall i Deactivate #
             (case selected_type p of
                Some k \<Rightarrow> [DecoderCall (nextInstance s) (Construct k p), DecoderCall i Destroy]
              | None \<Rightarrow> [DecoderCall i Destroy])"
    and "mDecoder (doOnPacketReceived ctl now p s) =
           (case selected_type p of Some k \<Rightarrow> Some (nextInstance s) | None \<Rightarrow> None)"
  using assms
  by (cases "getType p"; cases "getSubtitlesType p";
      simp add: is_selection_def selected_type_def doOnPacketReceived_def
        processDecoderSelection_def call_defs Let_def)+

text \<open>
  Claim C1, as stated, fails in its second half. \<^verbatim>\<open>mDecoder.reset(new ...)\<close> constructs
  the new controller before \<open>reset\<close> destroys the one the slot held: after a
  closed-caption selection and a WebVTT selection the log shows instance 0 deactivated,
  instance 1 constructed, and only then instance 0 destroyed.
\<close>

theorem release_after_construct_counterexample:
  "is_selection ex_cc_selection \<and> is_selection (ex_packet WEBVTT_SELECTION)
   \<and> calls (dispatch_all (ex_controllers True 0)
              [(1, ex_cc_selection), (2, ex_packet WEBVTT_SELECTION)] ex_session)
       = [DecoderCall 0 (Construct CC ex_cc_selection),
          DecoderCall 0 Deactivate,
          DecoderCall 1 (Construct WEBVTT (ex_packet WEBVTT_SELECTION)),
          DecoderCall 0 Destroy]
   \<and> \<not> released_before_construct
         (calls (dispatch_all (ex_controllers True 0)
                  [(1, ex_cc_selection), (2, ex_packet WEBVTT_SELECTION)] ex_session))"
  by (simp add: is_selection_def released_before_construct_def ex_defs doOnPacketReceived_def
        processDecoderSelection_def call_defs)

text \<open>
  Claim C1, amended. Whatever packets are dispatched to a session, at most one decoder
  controller is active at any moment, and no controller is active at the moment another is
  constructed. On a selection while a decoder is active, the active decoder is deactivated
  first, then the new controller (if the packet selects a known format) is constructed,
  and then the old controller is destroyed as the new one takes the slot.
\<close>

theorem one_active_decoder_across_dispatches:
  "at_most_one_active (calls (dispatch_all ctl tps (RenderSession_ctor d sock t0)))
   \<and> deactivated_before_construct (calls (dispatch_all ctl tps (RenderSession_ctor d sock t0)))
   \<and> (is_selection p \<and> mDecoder s = Some i \<longrightarrow>
        calls (doOnPacketReceived ctl now p s) =
          calls s @ DecoderCall i Deactivate #
            (case selected_type p of
               Some k \<Rightarrow> [DecoderCall (nextInstance s) (Construct k p), DecoderCall i Destroy]
             | None \<Rightarrow> [DecoderCall i Destroy])
        \<and> mDecoder (doOnPacketReceived ctl now p s) =
            (case selected_type p of Some k \<Rightarrow> Some (nextInstance s) | None \<Rightarrow> None))"
proof -
  have "session_inv (dispatch_all ctl tps (RenderSession_ctor d sock t0))"
    by (rule session_inv_dispatch_all [OF session_inv_ctor])
  then have "at_most_one_active (calls (dispatch_all ctl tps (RenderSession_ctor d sock t0)))"
    and "deactivated_before_construct
           (calls (dispatch_all ctl tps (RenderSession_ctor d sock t0)))"
    by (simp_all add: session_inv_def at_most_one_active_def deactivated_before_construct_def)
  then show ?thesis
    using selection_log [of p s i ctl now] by blast
qed

theorem one_active_decoder_across_dispatches_witness:
  "is_selection (ex_packet WEBVTT_SELECTION) \<and> mDecoder ex_cc_session = Some 0
   \<and> at_most_one_active
       (calls (dispatch_all (ex_controllers True 0)
                [(1, ex_cc_selection), (2, ex_packet WEBVTT_SELECTION)] ex_session))
   \<and> deactivated_before_construct
       (calls (dispatch_all (ex_controllers True 0)
                [(1, ex_cc_selection), (2, ex_packet WEBVTT_SELECTION)] ex_session))
   \<and> calls (doOnPacketReceived (ex_controllers True 0) 2 (ex_packet WEBVTT_SELECTION)
               ex_cc_session)
       = [DecoderCall 0 (Construct CC ex_cc_selection),
          DecoderCall 0 Deactivate,
          DecoderCall 1 (Construct WEBVTT (ex_packet WEBVTT_SELECTION)),
          DecoderCall 0 Destroy]
   \<and> mDecoder (doOnPacketReceived (ex_controllers True 0) 2 (ex_packet WEBVTT_SELECTION)
                 ex_cc_session) = Some 1"
proof -
  have sel: "is_selection (ex_packet WEBVTT_SELECTION)"
    by (simp add: is_selection_def ex_packet_def)
  have dec: "mDecoder ex_cc_session = Some 0"
    by (simp add: ex_cc_session_eq)
  have ty: "selected_type (ex_packet WEBVTT_SELECTION) = Some WEBVTT"
    by (simp add: selected_type_def ex_packet_def)
  have fresh: "ex_session = RenderSession_ctor ''disp0'' [] 0"
    by (simp add: ex_session_def)
  note th = one_active_decoder_across_dispatches
              [of "ex_controllers True 0" "[(1, ex_cc_selection), (2, ex_packet WEBVTT_SELECTION)]"
                  "''disp0''" "[]" 0 "ex_packet WEBVTT_SELECTION" ex_cc_session 0 2]
  from th have a: "at_most_one_active
       (calls (dispatch_all (ex_controllers True 0)
                [(1, ex_cc_selection), (2, ex_packet WEBVTT_SELECTION)] ex_session))"
    and b: "deactivated_before_construct
       (calls (dispatch_all (ex_controllers True 0)
                [(1, ex_cc_selection), (2, ex_packet WEBVTT_SELECTION)] ex_session))"
    unfolding fresh by blast+
  from th sel dec have c: "calls (doOnPacketReceived (ex_controllers True 0) 2
                                   (ex_packet WEBVTT_SELECTION) ex_cc_session)
       = [DecoderCall 0 (Construct CC ex_cc_selection),
          DecoderCall 0 Deactivate,
          DecoderCall 1 (Construct WEBVTT (ex_packet WEBVTT_SELECTION)),
          DecoderCall 0 Destroy]"
    and e: "mDecoder (doOnPacketReceived (ex_controllers True 0) 2 (ex_packet WEBVTT_SELECTION)
                 ex_cc_session) = Some 1"
    by (simp_all add: ty ex_cc_session_eq)
  from sel dec a b c e show ?thesis by (intro conjI)
qed


section \<open>The bytes of a built packet\<close>

lemma length_u32_le [simp]: "length (u32_le v) = 4"
  by (simp add: u32_le_def)

lemma le_u32_u32_le: "le_u32 (u32_le v @ rest) = v"
proof -
  have "ucast (ucast v :: u8) OR push_bit 8 (ucast (ucast (drop_bit 8 v) :: u8))
          OR push_bit 16 (ucast (ucast (drop_bit 16 v) :: u8))
          OR push_bit 24 (ucast (ucast (drop_bit 24 v) :: u8)) = v"
  proof (rule bit_word_eqI)
    fix n assume "n < LENGTH(32)"
    then have n: "n < 32" by simp
    consider "n < 8" | "8 \<le> n" "n < 16" | "16 \<le> n" "n < 24" | "24 \<le> n"
      by linarith
    then show "bit (ucast (ucast v :: u8) OR push_bit 8 (ucast (ucast (drop_bit 8 v) :: u8))
          OR push_bit 16 (ucast (ucast (drop_bit 16 v) :: u8))
          OR push_bit 24 (ucast (ucast (drop_bit 24 v) :: u8)) :: u32) n = bit v n"
      using n by cases (auto simp: bit_simps)
  qed
  then show ?thesis
    by (simp add: le_u32_def u32_le_def)
qed

lemma UINT32_MAX_mask: "UINT32_MAX = mask 32"
  by (simp add: UINT32_MAX_def mask_eq_exp_minus_1)

lemma join64_split: "join64 (ucast (w AND UINT32_MAX)) (ucast (signed_drop_bit 32 w)) = w"
  unfolding join64_def UINT32_MAX_mask
proof (rule bit_word_eqI)
  fix n assume "n < LENGTH(64)"
  then have n: "n < 64" by simp
  consider "n < 32" | "32 \<le> n" by linarith
  then show "bit (ucast (ucast (w AND mask 32) :: u32)
                  OR push_bit 32 (ucast (ucast (signed_drop_bit 32 w) :: u32)) :: i64) n
             = bit w n"
    using n by cases (auto simp: bit_simps)
qed

lemma sint_neg:
  assumes "off \<noteq> INT64_MIN" shows "sint (- off) = - sint off"
proof -
  have "sint off \<noteq> sint (- 9223372036854775808 :: i64)"
    using assms by (simp only: INT64_MIN_def word_eq_iff_signed [symmetric] not_False_eq_True)
  then have ne: "sint off \<noteq> - 9223372036854775808" by simp
  have "- (2 ^ 63) \<le> sint off" "sint off < 2 ^ 63"
    using sint_ge [of off] sint_lt [of off] by simp_all
  with ne have "- (2 ^ 63) \<le> - sint off" "- sint off < 2 ^ 63" by simp_all
  then have "signed_take_bit 63 (- sint off) = - sint off"
    by (rule signed_take_bit_int_eq_self)
  then show ?thesis by (simp add: sint_word_minus)
qed

lemma ctor_buffer:
  "BuildPacket_ctor LittleEndian t c = (c + 1, u32_le t @ u32_le (c + 1) @ u32_le 0 @ u32_le 1)"
  by (simp add: BuildPacket_ctor_def BuildPacket_app_def object_bytes_def Let_def)

lemma type_patch:
  "BuildPacket_type LittleEndian t' (u32_le t @ rest) = u32_le t' @ rest"
  by (simp add: BuildPacket_type_def store_u32_def object_bytes_def)

lemma done_patch:
  "BuildPacket_done LittleEndian (u32_le t @ u32_le c @ u32_le z @ rest)
     = u32_le t @ u32_le c @ u32_le (of_nat (length rest)) @ rest"
  by (simp add: BuildPacket_done_def store_u32_def object_bytes_def)

text \<open>
  Claim C7, as stated, fails: a built packet has no reserved word, and the length is the
  third word, not the fourth. In the pause packet the word at offset 8 holds 4, the
  number of bytes after the first 12; the word at offset 12 is the constant 1, which is
  neither the number of bytes after the first 12 nor the number after the first 16.
\<close>

theorem reserved_word_counterexample:
  "ex_pause_buffer = [11, 0, 0, 0, 1, 0, 0, 0, 4, 0, 0, 0, 1, 0, 0, 0]
   \<and> le_u32 (drop 8 ex_pause_buffer) = 4
   \<and> le_u32 (drop 12 ex_pause_buffer) = 1
   \<and> length (drop 12 ex_pause_buffer) = 4
   \<and> length (drop 16 ex_pause_buffer) = 0"
  by code_simp

text \<open>
  Claim C7, amended. On a little-endian host every built packet begins with a 12-byte
  header of three little-endian words: the type (as last set by \<open>type\<close>), the
  incremented counter, and the payload length. The payload follows: the word 1 and then
  whatever was appended. The length word is stored by \<open>done\<close>, after everything is
  appended, as the payload's length converted to 32 bits; it is the payload's length
  whenever that is below \<open>2 ^ 32\<close>.
\<close>

theorem built_packet_layout:
  "BuildPacket_done LittleEndian
     (BuildPacket_type LittleEndian t' (snd (BuildPacket_ctor LittleEndian t c)) @ rest)
     = u32_le t' @ u32_le (c + 1) @ u32_le (of_nat (length (u32_le 1 @ rest)))
         @ u32_le 1 @ rest
   \<and> BuildPacket_done LittleEndian (snd (BuildPacket_ctor LittleEndian t c) @ rest)
     = u32_le t @ u32_le (c + 1) @ u32_le (of_nat (length (u32_le 1 @ rest)))
         @ u32_le 1 @ rest
   \<and> (length (u32_le 1 @ rest) < 2 ^ 32 \<longrightarrow>
        unat (of_nat (length (u32_le 1 @ rest)) :: u32) = length (u32_le 1 @ rest))"
proof -
  have patched: "BuildPacket_done LittleEndian
     (BuildPacket_type LittleEndian t' (snd (BuildPacket_ctor LittleEndian t c)) @ rest)
     = u32_le t' @ u32_le (c + 1) @ u32_le (of_nat (length (u32_le 1 @ rest)))
         @ u32_le 1 @ rest"
    by (simp add: ctor_buffer type_patch done_patch)
  have plain: "BuildPacket_done LittleEndian (snd (BuildPacket_ctor LittleEndian t c) @ rest)
     = u32_le t @ u32_le (c + 1) @ u32_le (of_nat (length (u32_le 1 @ rest)))
         @ u32_le 1 @ rest"
    by (simp add: ctor_buffer done_patch)
  have "unat (of_nat n :: u32) = n" if "n < 2 ^ 32" for n
    using that by (simp add: unat_of_nat)
  then have len: "length (u32_le 1 @ rest) < 2 ^ 32 \<longrightarrow>
        unat (of_nat (length (u32_le 1 @ rest)) :: u32) = length (u32_le 1 @ rest)"
    by blast
  from patched plain len show ?thesis by (intro conjI)
qed

theorem built_packet_layout_witness:
  "length (u32_le 1 @ [65, 66]) < 2 ^ 32
   \<and> unat (of_nat (length (u32_le 1 @ [65, 66])) :: u32) = 6
   \<and> BuildPacket_done LittleEndian
        (BuildPacket_type LittleEndian 8 (snd (BuildPacket_ctor LittleEndian 11 0)) @ [65, 66])
      = [8, 0, 0, 0, 1, 0, 0, 0, 6, 0, 0, 0, 1, 0, 0, 0, 65, 66]"
proof -
  have l: "length (u32_le 1 @ [65, 66]) < 2 ^ 32"
    by simp
  note th = built_packet_layout [of 8 11 0 "[65, 66]"]
  from th l have u: "unat (of_nat (length (u32_le 1 @ [65, 66])) :: u32) = 6"
    by simp
  from th have "BuildPacket_done LittleEndian
        (BuildPacket_type LittleEndian 8 (snd (BuildPacket_ctor LittleEndian 11 0)) @ [65, 66])
      = u32_le 8 @ u32_le (0 + 1) @ u32_le (of_nat (length (u32_le 1 @ [65, 66])))
         @ u32_le 1 @ [65, 66]"
    by (rule conjunct1)
  also have "\<dots> = [8, 0, 0, 0, 1, 0, 0, 0, 6, 0, 0, 0, 1, 0, 0, 0, 65, 66]"
    by code_simp
  finally show ?thesis using l u by (intro conjI)
qed

section \<open>The display offset in a data packet\<close>

lemma sendData_TTML:
  "sendData_packet LittleEndian tc DT_TTML data off c =
     (c + 1, Some (u32_le (tc TTML_DATA) @ u32_le (c + 1) @ u32_le (of_nat (12 + length data))
                    @ u32_le 1 @ u32_le (ucast (off AND UINT32_MAX))
                    @ u32_le (ucast (signed_drop_bit 32 off)) @ data))"
  by (simp add: sendData_packet_def ctor_buffer type_patch done_patch BuildPacket_app_def
        object_bytes_def)

lemma sendData_WEBVTT:
  "sendData_packet LittleEndian tc DT_WEBVTT data off c =
     (c + 1, Some (u32_le (tc WEBVTT_DATA) @ u32_le (c + 1) @ u32_le (of_nat (12 + length data))
                    @ u32_le 1 @ u32_le (ucast (- off AND UINT32_MAX))
                    @ u32_le (ucast (signed_drop_bit 32 (- off))) @ data))"
  by (simp add: sendData_packet_def ctor_buffer type_patch done_patch BuildPacket_app_def
        object_bytes_def Let_def)

text \<open>The packet \<open>sendData\<close> builds is what it queues, when a decoder is active.\<close>

lemma sendData_queues_packet:
  assumes "sendData_packet bo tc type data offsetMs c = (c', Some buffer)"
  shows "sendData bo tc type data offsetMs (c, s) =
           (True, c', if isRenderingActive s then s\<lparr>mDataQueue := mDataQueue s @ [buffer]\<rparr>
                      else s)"
  using assms by (simp add: sendData_def addBuffer_def)

lemma encoded_offset_words:
  "encoded_offset (u32_le a @ u32_le b @ u32_le c @ u32_le d @ u32_le lo @ u32_le hi @ rest)
     = join64 lo hi"
proof -
  have "drop 16 (u32_le a @ u32_le b @ u32_le c @ u32_le d @ u32_le lo @ u32_le hi @ rest)
          = u32_le lo @ u32_le hi @ rest"
       "drop 20 (u32_le a @ u32_le b @ u32_le c @ u32_le d @ u32_le lo @ u32_le hi @ rest)
          = u32_le hi @ rest"
    by simp_all
  then show ?thesis
    by (simp only: encoded_offset_def le_u32_u32_le)
qed

lemma ex_webvtt_min_buffer:
  "sendData_packet LittleEndian ex_type_code DT_WEBVTT [] INT64_MIN 0
     = (1, Some [16, 0, 0, 0, 1, 0, 0, 0, 12, 0, 0, 0, 1, 0, 0, 0,
                 0, 0, 0, 0, 0, 0, 0, 128])"
  by code_simp

text \<open>
  Claim C2, as stated, fails at one offset: the negation of the least 64-bit value is not
  a 64-bit signed value. For that offset the packet carries the offset itself, not its
  negation.
\<close>

theorem webvtt_offset_min_counterexample:
  "sendData_packet LittleEndian ex_type_code DT_WEBVTT [] INT64_MIN 0
     = (1, Some [16, 0, 0, 0, 1, 0, 0, 0, 12, 0, 0, 0, 1, 0, 0, 0,
                 0, 0, 0, 0, 0, 0, 0, 128])
   \<and> sint (encoded_offset
             (the (snd (sendData_packet LittleEndian ex_type_code DT_WEBVTT [] INT64_MIN 0))))
       = - 9223372036854775808
   \<and> - sint INT64_MIN = 9223372036854775808"
proof -
  have "sint (encoded_offset
             (the (snd (sendData_packet LittleEndian ex_type_code DT_WEBVTT [] INT64_MIN 0))))
       = - 9223372036854775808"
    by (simp only: sendData_WEBVTT snd_conv option.sel encoded_offset_words join64_split)
       (simp add: INT64_MIN_def)
  moreover have "- sint INT64_MIN = 9223372036854775808"
    by (simp add: INT64_MIN_def)
  ultimately show ?thesis
    using ex_webvtt_min_buffer by (intro conjI)
qed

text \<open>
  Claim C2, amended. On a little-endian host, \<open>sendData\<close> with type TTML puts the
  caller's offset unchanged into the packet, for every offset; with type WEBVTT it puts
  the negation of the offset, for every offset but the least 64-bit value. In both cases
  the 64-bit value is two little-endian 32-bit words, the low word first, at bytes 16 to
  23 of the packet (after the 12-byte header and the word 1), and the data follows.
\<close>

theorem sendData_offset_encoding:
  "sendData_packet LittleEndian tc DT_TTML data off c =
     (c + 1, Some (u32_le (tc TTML_DATA) @ u32_le (c + 1) @ u32_le (of_nat (12 + length data))
                    @ u32_le 1 @ u32_le (ucast (off AND UINT32_MAX))
                    @ u32_le (ucast (signed_drop_bit 32 off)) @ data))
   \<and> encoded_offset (the (snd (sendData_packet LittleEndian tc DT_TTML data off c))) = off
   \<and> (off \<noteq> INT64_MIN \<longrightarrow>
        sendData_packet LittleEndian tc DT_WEBVTT data off c =
          (c + 1, Some (u32_le (tc WEBVTT_DATA) @ u32_le (c + 1)
                         @ u32_le (of_nat (12 + length data))
                         @ u32_le 1 @ u32_le (ucast (- off AND UINT32_MAX))
                         @ u32_le (ucast (signed_drop_bit 32 (- off))) @ data))
        \<and> sint (encoded_offset (the (snd (sendData_packet LittleEndian tc DT_WEBVTT data off c))))
            = - sint off)"
proof -
  have ttml: "encoded_offset (the (snd (sendData_packet LittleEndian tc DT_TTML data off c)))
              = off"
    by (simp only: sendData_TTML snd_conv option.sel encoded_offset_words join64_split)
  have "encoded_offset (the (snd (sendData_packet LittleEndian tc DT_WEBVTT data off c)))
        = - off"
    by (simp only: sendData_WEBVTT snd_conv option.sel encoded_offset_words join64_split)
  then have webvtt: "off \<noteq> INT64_MIN \<longrightarrow>
      sint (encoded_offset (the (snd (sendData_packet LittleEndian tc DT_WEBVTT data off c))))
        = - sint off"
    by (simp add: sint_neg)
  from ttml webvtt show ?thesis
    using sendData_TTML [of tc data off c] sendData_WEBVTT [of tc data off c] by blast
qed

theorem sendData_offset_encoding_witness:
  "(3000 :: i64) \<noteq> INT64_MIN
   \<and> sendData_packet LittleEndian ex_type_code DT_WEBVTT [65, 66] 3000 0
       = (1, Some [16, 0, 0, 0, 1, 0, 0, 0, 14, 0, 0, 0, 1, 0, 0, 0,
                   72, 244, 255, 255, 255, 255, 255, 255, 65, 66])
   \<and> sint (encoded_offset
             (the (snd (sendData_packet LittleEndian ex_type_code DT_WEBVTT [65, 66] 3000 0))))
       = - 3000
   \<and> sendData_packet LittleEndian ex_type_code DT_TTML [65, 66] 3000 0
       = (1, Some [8, 0, 0, 0, 1, 0, 0, 0, 14, 0, 0, 0, 1, 0, 0, 0,
                   184, 11, 0, 0, 0, 0, 0, 0, 65, 66])
   \<and> encoded_offset
        (the (snd (sendData_packet LittleEndian ex_type_code DT_TTML [65, 66] 3000 0)))
       = 3000"
proof -
  have ne: "(3000 :: i64) \<noteq> INT64_MIN"
    by (simp add: INT64_MIN_def)
  note th = sendData_offset_encoding [of ex_type_code "[65, 66]" 3000 0]
  have w: "sendData_packet LittleEndian ex_type_code DT_WEBVTT [65, 66] 3000 0
       = (1, Some [16, 0, 0, 0, 1, 0, 0, 0, 14, 0, 0, 0, 1, 0, 0, 0,
                   72, 244, 255, 255, 255, 255, 255, 255, 65, 66])"
    by code_simp
  from th ne have ws: "sint (encoded_offset
             (the (snd (sendData_packet LittleEndian ex_type_code DT_WEBVTT [65, 66] 3000 0))))
       = - sint (3000 :: i64)"
    by blast
  have t: "sendData_packet LittleEndian ex_type_code DT_TTML [65, 66] 3000 0
       = (1, Some [8, 0, 0, 0, 1, 0, 0, 0, 14, 0, 0, 0, 1, 0, 0, 0,
                   184, 11, 0, 0, 0, 0, 0, 0, 65, 66])"
    by code_simp
  from th have ts: "encoded_offset
        (the (snd (sendData_packet LittleEndian ex_type_code DT_TTML [65, 66] 3000 0)))
       = 3000"
    by blast
  have "- sint (3000 :: i64) = - 3000" by simp
  with ws have ws': "sint (encoded_offset
             (the (snd (sendData_packet LittleEndian ex_type_code DT_WEBVTT [65, 66] 3000 0))))
       = - 3000"
    by (simp only:)
  from ne w ws' t ts show ?thesis by (intro conjI)
qed


section \<open>The render loop\<close>

lemma dispatch_quit:
  "mQuitRenderThread (doOnPacketReceived ctl now p s) = mQuitRenderThread s"
  by (cases "getType p"; cases "getSubtitlesType p"; cases "mDecoder s")
     (simp_all add: doOnPacketReceived_def process_defs call_defs Let_def)

lemma drain_quit:
  "mQuitRenderThread (processData_drain ctl now s) = mQuitRenderThread s"
proof (induction ctl now s rule: processData_drain.induct)
  case (1 ctl now s)
  show ?case
  proof (cases "mDataQueue s = []")
    case True
    then show ?thesis by (subst processData_drain.simps) simp
  next
    case False
    with "1.IH" show ?thesis
      by (subst processData_drain.simps) (simp add: dispatch_quit)
  qed
qed

lemma processData_quit:
  "mQuitRenderThread (snd (processData ctl now s)) = mQuitRenderThread s"
  by (simp add: processData_def Let_def drain_quit call_defs split: option.splits)

text \<open>
  Claim C6, as stated, fails: a wait time of zero makes the thread \<^verbatim>\<open>break\<close> out of the
  inner loop. With a decoder active, a buffer queued and a decoder that reports zero, the
  thread runs one pass and three steps later is in the outer wait, having made no second
  pass. The statement after the inner loop, which the code logs as "no active controller,
  clearing the data queue", is reached with the decoder still active, and a buffer a
  producer queues right after the pass is cleared there.
\<close>

theorem zero_wait_counterexample:
  "\<not> mQuitRenderThread ex_busy_session \<and> isRenderingActive ex_busy_session
   \<and> fst (processData (ex_controllers True 0) 2 ex_busy_session) = 0
   \<and> fst (processLoop_step (ex_controllers True 0) 2 (InnerTest, ex_busy_session)) = ClearQueue
   \<and> isRenderingActive
        (snd (processLoop_step (ex_controllers True 0) 2 (InnerTest, ex_busy_session)))
   \<and> fst (processLoop_step (ex_controllers True 0) 2
            (processLoop_step (ex_controllers True 0) 2
              (processLoop_step (ex_controllers True 0) 2 (InnerTest, ex_busy_session))))
       = OuterWait
   \<and> calls (snd (processLoop_step (ex_controllers True 0) 2
            (processLoop_step (ex_controllers True 0) 2
              (processLoop_step (ex_controllers True 0) 2 (InnerTest, ex_busy_session)))))
       = [DecoderCall 0 (Construct CC ex_cc_selection), DecoderCall 0 Process,
          DecoderCall 0 GetWaitTime, GfxExecute]
   \<and> mDataQueue
        (addBuffer [4] (snd (processLoop_step (ex_controllers True 0) 2
                               (InnerTest, ex_busy_session)))) = [[4]]
   \<and> mDataQueue
        (snd (processLoop_step (ex_controllers True 0) 2
                (ClearQueue,
                 addBuffer [4] (snd (processLoop_step (ex_controllers True 0) 2
                                       (InnerTest, ex_busy_session)))))) = []
   \<and> mDecoder
        (snd (processLoop_step (ex_controllers True 0) 2
                (ClearQueue,
                 addBuffer [4] (snd (processLoop_step (ex_controllers True 0) 2
                                       (InnerTest, ex_busy_session)))))) = Some 0"
  by code_simp

text \<open>
  Claim C6, amended. At the test of the inner loop, with no shutdown requested:
  \<^item> with a decoder active the thread runs one pass (drain, process, flush). When the
    pass reports a wait time of zero the thread leaves the inner loop and is in the outer
    wait three steps later, with the session the pass left (nothing is said about the
    queue) and so without another pass;
  \<^item> when the pass reports another wait time the thread sleeps for exactly that time, and
    from the sleep it comes back to the test of the inner loop;
  \<^item> with no decoder active the thread runs no pass, clears the ingress queue and is in
    the outer wait, the session otherwise as it was.
\<close>

theorem zero_wait_leaves_inner_loop:
  assumes "\<not> mQuitRenderThread s"
  shows "(isRenderingActive s \<and> fst (processData ctl now s) = 0 \<longrightarrow>
            fst (processLoop_step ctl now (processLoop_step ctl now
                  (processLoop_step ctl now (InnerTest, s)))) = OuterWait
            \<and> same_apart_from_queue
                (snd (processLoop_step ctl now (processLoop_step ctl now
                        (processLoop_step ctl now (InnerTest, s)))))
                (log_event GfxExecute (snd (processData ctl now s))))
         \<and> (isRenderingActive s \<and> fst (processData ctl now s) \<noteq> 0 \<longrightarrow>
              processLoop_step ctl now (InnerTest, s)
                = (InnerWait (fst (processData ctl now s)),
                   log_event GfxExecute (snd (processData ctl now s))))
         \<and> processLoop_step ctl now (InnerWait w, s') = (InnerTest, s')
         \<and> (\<not> isRenderingActive s \<longrightarrow>
              processLoop_step ctl now (processLoop_step ctl now
                  (processLoop_step ctl now (InnerTest, s)))
                = (OuterWait, s\<lparr>mDataQueue := []\<rparr>))"
proof -
  have zero: "isRenderingActive s \<and> fst (processData ctl now s) = 0 \<longrightarrow>
            fst (processLoop_step ctl now (processLoop_step ctl now
                  (processLoop_step ctl now (InnerTest, s)))) = OuterWait
            \<and> same_apart_from_queue
                (snd (processLoop_step ctl now (processLoop_step ctl now
                        (processLoop_step ctl now (InnerTest, s)))))
                (log_event GfxExecute (snd (processData ctl now s)))"
    using assms processData_quit [of ctl now s]
    by (cases "processData ctl now s") (simp add: log_event_def same_apart_from_queue_def)
  have sleep: "isRenderingActive s \<and> fst (processData ctl now s) \<noteq> 0 \<longrightarrow>
              processLoop_step ctl now (InnerTest, s)
                = (InnerWait (fst (processData ctl now s)),
                   log_event GfxExecute (snd (processData ctl now s)))"
    using assms by (cases "processData ctl now s") simp
  have wake: "processLoop_step ctl now (InnerWait w, s') = (InnerTest, s')"
    by simp
  have idle: "\<not> isRenderingActive s \<longrightarrow>
              processLoop_step ctl now (processLoop_step ctl now
                  (processLoop_step ctl now (InnerTest, s)))
                = (OuterWait, s\<lparr>mDataQueue := []\<rparr>)"
    using assms by simp
  from zero sleep wake idle show ?thesis by (intro conjI)
qed

theorem zero_wait_leaves_inner_loop_witness:
  "\<not> mQuitRenderThread ex_busy_session \<and> isRenderingActive ex_busy_session
   \<and> fst (processData (ex_controllers True 0) 2 ex_busy_session) = 0
   \<and> fst (processLoop_step (ex_controllers True 0) 2
            (processLoop_step (ex_controllers True 0) 2
              (processLoop_step (ex_controllers True 0) 2 (InnerTest, ex_busy_session))))
       = OuterWait
   \<and> same_apart_from_queue
        (snd (processLoop_step (ex_controllers True 0) 2
               (processLoop_step (ex_controllers True 0) 2
                 (processLoop_step (ex_controllers True 0) 2 (InnerTest, ex_busy_session)))))
        (log_event GfxExecute (snd (processData (ex_controllers True 0) 2 ex_busy_session)))
   \<and> fst (processData (ex_controllers True 5) 2 ex_busy_session) = 5
   \<and> processLoop_step (ex_controllers True 5) 2 (InnerTest, ex_busy_session)
       = (InnerWait 5,
          log_event GfxExecute (snd (processData (ex_controllers True 5) 2 ex_busy_session)))
   \<and> \<not> mQuitRenderThread ex_orphan_session \<and> \<not> isRenderingActive ex_orphan_session
   \<and> mDataQueue ex_orphan_session = [[1, 2, 3]]
   \<and> processLoop_step (ex_controllers True 0) 3
        (processLoop_step (ex_controllers True 0) 3
          (processLoop_step (ex_controllers True 0) 3 (InnerTest, ex_orphan_session)))
       = (OuterWait, ex_orphan_session\<lparr>mDataQueue := []\<rparr>)"
proof -
  have q: "\<not> mQuitRenderThread ex_busy_session" and a: "isRenderingActive ex_busy_session"
    by code_simp+
  have z: "fst (processData (ex_controllers True 0) 2 ex_busy_session) = 0"
    and w: "fst (processData (ex_controllers True 5) 2 ex_busy_session) = 5"
    by code_simp+
  have oq: "\<not> mQuitRenderThread ex_orphan_session"
    and oa: "\<not> isRenderingActive ex_orphan_session"
    and ob: "mDataQueue ex_orphan_session = [[1, 2, 3]]"
    by code_simp+
  note busy0 = zero_wait_leaves_inner_loop [OF q, of "ex_controllers True 0" 2]
  from busy0 a z
  have l0: "fst (processLoop_step (ex_controllers True 0) 2
            (processLoop_step (ex_controllers True 0) 2
              (processLoop_step (ex_controllers True 0) 2 (InnerTest, ex_busy_session))))
       = OuterWait"
    and s0: "same_apart_from_queue
        (snd (processLoop_step (ex_controllers True 0) 2
               (processLoop_step (ex_controllers True 0) 2
                 (processLoop_step (ex_controllers True 0) 2 (InnerTest, ex_busy_session)))))
        (log_event GfxExecute (snd (processData (ex_controllers True 0) 2 ex_busy_session)))"
    by blast+
  have "fst (processData (ex_controllers True 5) 2 ex_busy_session) \<noteq> 0"
    using w by simp
  with zero_wait_leaves_inner_loop [OF q, of "ex_controllers True 5" 2] a
  have "processLoop_step (ex_controllers True 5) 2 (InnerTest, ex_busy_session)
       = (InnerWait (fst (processData (ex_controllers True 5) 2 ex_busy_session)),
          log_event GfxExecute (snd (processData (ex_controllers True 5) 2 ex_busy_session)))"
    by blast
  then have l5: "processLoop_step (ex_controllers True 5) 2 (InnerTest, ex_busy_session)
       = (InnerWait 5,
          log_event GfxExecute (snd (processData (ex_controllers True 5) 2 ex_busy_session)))"
    by (simp only: w)
  from zero_wait_leaves_inner_loop [OF oq, of "ex_controllers True 0" 3] oa
  have lo: "processLoop_step (ex_controllers True 0) 3
        (processLoop_step (ex_controllers True 0) 3
          (processLoop_step (ex_controllers True 0) 3 (InnerTest, ex_orphan_session)))
       = (OuterWait, ex_orphan_session\<lparr>mDataQueue := []\<rparr>)"
    by blast
  from q a z l0 s0 w l5 oq oa ob lo show ?thesis by (intro conjI)
qed


section \<open>The registry's calls\<close>

lemma find_update_at:
  "(\<And>x. P x \<Longrightarrow> P (f x)) \<Longrightarrow> find P (update_at P f xs) = map_option f (find P xs)"
  by (induction xs) auto

lemma map_fst_update_at:
  "(\<And>x. fst (f x) = fst x) \<Longrightarrow> map fst (update_at P f xs) = map fst xs"
  by (induction xs) auto

lemma update_at_same:
  "find P xs = Some x \<Longrightarrow> f x = x \<Longrightarrow> update_at P f xs = xs"
  by (induction xs) (auto split: if_splits)

lemma find_SomeD: "find P xs = Some x \<Longrightarrow> P x"
  by (induction xs) (auto split: if_splits)

lemma start_display: "getDisplayName (snd (start sc s)) = getDisplayName s"
  by (simp add: start_def getDisplayName_def Let_def)

lemma start_started: "mStarted s \<Longrightarrow> start sc s = (False, s)"
  by (simp add: start_def)

text \<open>
  Claim C9. \<open>SetPreviewText\<close> on an identifier the registry does not hold returns the
  general failure and changes nothing. On a session whose format is not CC it returns
  \<open>ERROR_NOT_SUPPORTED\<close> and changes nothing. On a session whose format is CC it returns
  \<open>ERROR_NONE\<close>; no session is added or removed, and that session has its time touched
  and the text as its preview text, handed to the decoder's \<open>setTextForPreview\<close> when a
  decoder is active.
\<close>

theorem SetPreviewText_results:
  "(map_find sid (mSessions t) = None \<longrightarrow> SetPreviewText now sid str t = (ERROR_GENERAL, t))
   \<and> (map_find sid (mSessions t) = Some (k, s) \<and> getSessionType s \<noteq> CC \<longrightarrow>
        SetPreviewText now sid str t = (ERROR_NOT_SUPPORTED, t))
   \<and> (map_find sid (mSessions t) = Some (k, s) \<and> getSessionType s = CC \<longrightarrow>
        fst (SetPreviewText now sid str t) = ERROR_NONE
        \<and> map_find sid (mSessions (snd (SetPreviewText now sid str t)))
            = Some (k, setTextForClosedCaptionPreview str (touchTime now s))
        \<and> map fst (mSessions (snd (SetPreviewText now sid str t))) = map fst (mSessions t)
        \<and> mPreviewText (setTextForClosedCaptionPreview str (touchTime now s)) = str
        \<and> calls (setTextForClosedCaptionPreview str (touchTime now s))
            = (case mDecoder s of
                 None \<Rightarrow> calls s
               | Some i \<Rightarrow> calls s @ [DecoderCall i (SetTextForPreview str)]))"
proof -
  have found: "map_find sid
                 (update_at (\<lambda>elm. fst elm = sid)
                    (\<lambda>elm. (fst elm, setTextForClosedCaptionPreview str (touchTime now (snd elm))))
                    m)
               = map_option
                   (\<lambda>elm. (fst elm, setTextForClosedCaptionPreview str (touchTime now (snd elm))))
                   (map_find sid m)" for m
    unfolding map_find_def by (rule find_update_at) simp
  have preview: "mPreviewText (setTextForClosedCaptionPreview str s') = str" for s'
    by (simp add: setTextForClosedCaptionPreview_def call_defs Let_def split: option.splits)
  have log: "getSessionType s = CC \<Longrightarrow>
      calls (setTextForClosedCaptionPreview str (touchTime now s))
            = (case mDecoder s of
                 None \<Rightarrow> calls s
               | Some i \<Rightarrow> calls s @ [DecoderCall i (SetTextForPreview str)])"
    by (simp add: setTextForClosedCaptionPreview_def getSessionType_def call_defs Let_def
          split: option.splits)
  show ?thesis
    by (auto simp: SetPreviewText_def found preview log map_fst_update_at)
qed

theorem SetPreviewText_results_witness:
  "map_find 3 (mSessions ex_registry) = None
   \<and> SetPreviewText 9 3 ''Hi'' ex_registry = (ERROR_GENERAL, ex_registry)
   \<and> map_find 2 (mSessions ex_registry)
       = Some (2, (RenderSession_ctor ''disp1'' [] 0)\<lparr>mStarted := True\<rparr>)
   \<and> getSessionType ((RenderSession_ctor ''disp1'' [] 0)\<lparr>mStarted := True\<rparr>) \<noteq> CC
   \<and> SetPreviewText 9 2 ''Hi'' ex_registry = (ERROR_NOT_SUPPORTED, ex_registry)
   \<and> map_find 1 (mSessions ex_registry) = Some (1, ex_cc_session\<lparr>mStarted := True\<rparr>)
   \<and> getSessionType (ex_cc_session\<lparr>mStarted := True\<rparr>) = CC
   \<and> fst (SetPreviewText 9 1 ''Hi'' ex_registry) = ERROR_NONE
   \<and> map_find 1 (mSessions (snd (SetPreviewText 9 1 ''Hi'' ex_registry)))
       = Some (1, setTextForClosedCaptionPreview ''Hi''
                    (touchTime 9 (ex_cc_session\<lparr>mStarted := True\<rparr>)))
   \<and> calls (setTextForClosedCaptionPreview ''Hi''
               (touchTime 9 (ex_cc_session\<lparr>mStarted := True\<rparr>)))
       = [DecoderCall 0 (Construct CC ex_cc_selection), DecoderCall 0 (SetTextForPreview ''Hi'')]"
proof -
  have n: "map_find 3 (mSessions ex_registry) = None"
    by code_simp
  have f2: "map_find 2 (mSessions ex_registry)
            = Some (2, (RenderSession_ctor ''disp1'' [] 0)\<lparr>mStarted := True\<rparr>)"
    by code_simp
  have t2: "getSessionType ((RenderSession_ctor ''disp1'' [] 0)\<lparr>mStarted := True\<rparr>) \<noteq> CC"
    by code_simp
  have f1: "map_find 1 (mSessions ex_registry) = Some (1, ex_cc_session\<lparr>mStarted := True\<rparr>)"
    by code_simp
  have t1: "getSessionType (ex_cc_session\<lparr>mStarted := True\<rparr>) = CC"
    by code_simp
  from SetPreviewText_results [where sid = 3 and t = ex_registry and now = 9 and str = "''Hi''"] n
  have a: "SetPreviewText 9 3 ''Hi'' ex_registry = (ERROR_GENERAL, ex_registry)"
    by blast
  from SetPreviewText_results [where sid = 2 and t = ex_registry and now = 9 and str = "''Hi''"
         and k = 2 and s = "(RenderSession_ctor ''disp1'' [] 0)\<lparr>mStarted := True\<rparr>"] f2 t2
  have b: "SetPreviewText 9 2 ''Hi'' ex_registry = (ERROR_NOT_SUPPORTED, ex_registry)"
    by blast
  note th = SetPreviewText_results [where sid = 1 and t = ex_registry and now = 9
              and str = "''Hi''" and k = 1 and s = "ex_cc_session\<lparr>mStarted := True\<rparr>"]
  from th f1 t1 have c: "fst (SetPreviewText 9 1 ''Hi'' ex_registry) = ERROR_NONE"
    by blast
  from th f1 t1 have d: "map_find 1 (mSessions (snd (SetPreviewText 9 1 ''Hi'' ex_registry)))
       = Some (1, setTextForClosedCaptionPreview ''Hi''
                    (touchTime 9 (ex_cc_session\<lparr>mStarted := True\<rparr>)))"
    by blast
  have e: "calls (setTextForClosedCaptionPreview ''Hi''
               (touchTime 9 (ex_cc_session\<lparr>mStarted := True\<rparr>)))
       = [DecoderCall 0 (Construct CC ex_cc_selection), DecoderCall 0 (SetTextForPreview ''Hi'')]"
    by code_simp
  from n a f2 t2 b f1 t1 c d e show ?thesis by (intro conjI)
qed

text \<open>
  Claim C10. \<open>OpenSession\<close> with an empty display name returns the general failure and
  leaves the caller's identifier and the registry as they were. With the name of a
  session the registry holds, it returns that session's identifier, adds no session and
  allocates no number, and calls \<open>start\<close> on that session, which changes nothing when the
  session is started already. A new number is allocated only for a non-empty name that no
  session of the registry has, and is then the identifier returned.
\<close>

theorem OpenSession_reuses_named_session:
  "(iDisplayName = [] \<longrightarrow>
      OpenSession host now iDisplayName oSessionId t = (Returns ERROR_GENERAL, oSessionId, t))
   \<and> (iDisplayName \<noteq> []
        \<and> find (\<lambda>elm. getDisplayName (snd elm) = iDisplayName) (mSessions t) = Some (k, s) \<longrightarrow>
        fst (OpenSession host now iDisplayName oSessionId t)
          = (if fst (start (socketCreate host) s) then Throws else Returns ERROR_NONE)
        \<and> fst (snd (OpenSession host now iDisplayName oSessionId t)) = k
        \<and> map fst (mSessions (snd (snd (OpenSession host now iDisplayName oSessionId t))))
            = map fst (mSessions t)
        \<and> mSessionNumber (snd (snd (OpenSession host now iDisplayName oSessionId t)))
            = mSessionNumber t
        \<and> find (\<lambda>elm. getDisplayName (snd elm) = iDisplayName)
             (mSessions (snd (snd (OpenSession host now iDisplayName oSessionId t))))
            = Some (k, snd (start (socketCreate host) s))
        \<and> (mStarted s \<longrightarrow>
             OpenSession host now iDisplayName oSessionId t = (Returns ERROR_NONE, k, t)))
   \<and> (iDisplayName \<noteq> []
        \<and> find (\<lambda>elm. getDisplayName (snd elm) = iDisplayName) (mSessions t) = None \<longrightarrow>
        fst (snd (OpenSession host now iDisplayName oSessionId t)) = mSessionNumber t + 1
        \<and> mSessionNumber (snd (snd (OpenSession host now iDisplayName oSessionId t)))
            = mSessionNumber t + 1)
   \<and> (mSessionNumber (snd (snd (OpenSession host now iDisplayName oSessionId t)))
         \<noteq> mSessionNumber t \<longrightarrow>
        iDisplayName \<noteq> []
        \<and> find (\<lambda>elm. getDisplayName (snd elm) = iDisplayName) (mSessions t) = None)"
proof -
  let ?P = "\<lambda>elm. getDisplayName (snd elm) = iDisplayName"
  let ?f = "\<lambda>elm :: u32 \<times> RenderSession. (fst elm, snd (start (socketCreate host) s))"
  have empty: "iDisplayName = [] \<longrightarrow>
      OpenSession host now iDisplayName oSessionId t = (Returns ERROR_GENERAL, oSessionId, t)"
    by (simp add: OpenSession_def)
  have fresh: "iDisplayName \<noteq> [] \<and> find ?P (mSessions t) = None \<longrightarrow>
        fst (snd (OpenSession host now iDisplayName oSessionId t)) = mSessionNumber t + 1
        \<and> mSessionNumber (snd (snd (OpenSession host now iDisplayName oSessionId t)))
            = mSessionNumber t + 1"
    by (simp add: OpenSession_def Let_def)
  have existing: "OpenSession host now iDisplayName oSessionId t =
            (if fst (start (socketCreate host) s) then Throws else Returns ERROR_NONE, k,
             t\<lparr>mSessions := update_at ?P ?f (mSessions t)\<rparr>)"
    if "iDisplayName \<noteq> []" and "find ?P (mSessions t) = Some (k, s)"
    using that by (simp add: OpenSession_def Let_def)
  have reuse: "iDisplayName \<noteq> [] \<and> find ?P (mSessions t) = Some (k, s) \<longrightarrow>
        fst (OpenSession host now iDisplayName oSessionId t)
          = (if fst (start (socketCreate host) s) then Throws else Returns ERROR_NONE)
        \<and> fst (snd (OpenSession host now iDisplayName oSessionId t)) = k
        \<and> map fst (mSessions (snd (snd (OpenSession host now iDisplayName oSessionId t))))
            = map fst (mSessions t)
        \<and> mSessionNumber (snd (snd (OpenSession host now iDisplayName oSessionId t)))
            = mSessionNumber t
        \<and> find ?P (mSessions (snd (snd (OpenSession host now iDisplayName oSessionId t))))
            = Some (k, snd (start (socketCreate host) s))
        \<and> (mStarted s \<longrightarrow>
             OpenSession host now iDisplayName oSessionId t = (Returns ERROR_NONE, k, t))"
  proof (intro impI, elim conjE)
    assume ne: "iDisplayName \<noteq> []" and f: "find ?P (mSessions t) = Some (k, s)"
    note ex = existing [OF ne f]
    have "?P (k, s)" using f by (rule find_SomeD)
    then have keep: "?P x \<Longrightarrow> ?P (?f x)" for x
      by (simp add: start_display)
    have fnd: "find ?P (update_at ?P ?f (mSessions t)) = Some (k, snd (start (socketCreate host) s))"
      using f by (simp add: find_update_at [of ?P ?f, OF keep])
    have same: "update_at ?P (\<lambda>elm. (fst elm, s)) (mSessions t) = mSessions t"
      using f by (rule update_at_same) simp
    show "fst (OpenSession host now iDisplayName oSessionId t)
          = (if fst (start (socketCreate host) s) then Throws else Returns ERROR_NONE)
        \<and> fst (snd (OpenSession host now iDisplayName oSessionId t)) = k
        \<and> map fst (mSessions (snd (snd (OpenSession host now iDisplayName oSessionId t))))
            = map fst (mSessions t)
        \<and> mSessionNumber (snd (snd (OpenSession host now iDisplayName oSessionId t)))
            = mSessionNumber t
        \<and> find ?P (mSessions (snd (snd (OpenSession host now iDisplayName oSessionId t))))
            = Some (k, snd (start (socketCreate host) s))
        \<and> (mStarted s \<longrightarrow>
             OpenSession host now iDisplayName oSessionId t = (Returns ERROR_NONE, k, t))"
      by (simp add: ex fnd map_fst_update_at same start_started)
  qed
  have only: "mSessionNumber (snd (snd (OpenSession host now iDisplayName oSessionId t)))
         \<noteq> mSessionNumber t \<longrightarrow>
        iDisplayName \<noteq> [] \<and> find ?P (mSessions t) = None"
    by (auto simp: OpenSession_def Let_def split: option.splits)
  from empty reuse fresh only show ?thesis by (intro conjI)
qed

theorem OpenSession_reuses_named_session_witness:
  "OpenSession ex_host 9 [] 7 ex_registry = (Returns ERROR_GENERAL, 7, ex_registry)
   \<and> ''disp1'' \<noteq> []
   \<and> find (\<lambda>elm. getDisplayName (snd elm) = ''disp1'') (mSessions ex_registry)
       = Some (2, (RenderSession_ctor ''disp1'' [] 0)\<lparr>mStarted := True\<rparr>)
   \<and> mStarted ((RenderSession_ctor ''disp1'' [] 0)\<lparr>mStarted := True\<rparr>)
   \<and> OpenSession ex_host 9 ''disp1'' 7 ex_registry = (Returns ERROR_NONE, 2, ex_registry)
   \<and> ''disp7'' \<noteq> []
   \<and> find (\<lambda>elm. getDisplayName (snd elm) = ''disp7'') (mSessions ex_registry) = None
   \<and> fst (snd (OpenSession ex_host 9 ''disp7'' 7 ex_registry)) = 3
   \<and> mSessionNumber (snd (snd (OpenSession ex_host 9 ''disp7'' 7 ex_registry)))
       \<noteq> mSessionNumber ex_registry"
proof -
  have e: "OpenSession ex_host 9 [] 7 ex_registry = (Returns ERROR_GENERAL, 7, ex_registry)"
    using OpenSession_reuses_named_session
            [where iDisplayName = "[]" and host = ex_host and now = 9 and oSessionId = 7
               and t = ex_registry]
    by blast
  have n1: "''disp1'' \<noteq> []" and n7: "''disp7'' \<noteq> []"
    by simp_all
  have f1: "find (\<lambda>elm. getDisplayName (snd elm) = ''disp1'') (mSessions ex_registry)
            = Some (2, (RenderSession_ctor ''disp1'' [] 0)\<lparr>mStarted := True\<rparr>)"
    by code_simp
  have st: "mStarted ((RenderSession_ctor ''disp1'' [] 0)\<lparr>mStarted := True\<rparr>)"
    by simp
  have f7: "find (\<lambda>elm. getDisplayName (snd elm) = ''disp7'') (mSessions ex_registry) = None"
    by code_simp
  from OpenSession_reuses_named_session
         [where iDisplayName = "''disp1''" and host = ex_host and now = 9 and oSessionId = 7
            and t = ex_registry and k = 2
            and s = "(RenderSession_ctor ''disp1'' [] 0)\<lparr>mStarted := True\<rparr>"] n1 f1 st
  have r: "OpenSession ex_host 9 ''disp1'' 7 ex_registry = (Returns ERROR_NONE, 2, ex_registry)"
    by blast
  have two: "mSessionNumber ex_registry = 2"
    by (simp add: ex_registry_def)
  note th7 = OpenSession_reuses_named_session
         [where iDisplayName = "''disp7''" and host = ex_host and now = 9 and oSessionId = 7
            and t = ex_registry]
  from th7 n7 f7
  have "fst (snd (OpenSession ex_host 9 ''disp7'' 7 ex_registry)) = mSessionNumber ex_registry + 1"
    and "mSessionNumber (snd (snd (OpenSession ex_host 9 ''disp7'' 7 ex_registry)))
         = mSessionNumber ex_registry + 1"
    by blast+
  then have i: "fst (snd (OpenSession ex_host 9 ''disp7'' 7 ex_registry)) = 3"
    and m: "mSessionNumber (snd (snd (OpenSession ex_host 9 ''disp7'' 7 ex_registry)))
            \<noteq> mSessionNumber ex_registry"
    by (simp_all add: two)
  from e n1 f1 st r n7 f7 i m show ?thesis by (intro conjI)
qed

end
